theory Spec2Isabelle
  imports Main "HOL-Library.Sublist"
begin

section \<open>Model registration and retrieval (vertexai/preview/\_workflow/shared/model\_utils.py)\<close>

text \<open>
  The module pushes a locally trained model to the Model Registry (\<open>register\<close>) and pulls a
  model back for further training (\<open>from_pretrained\<close>). Both are dispatch layers over
  collaborators that live outside the module: the serializer, the prediction-container
  helper, the remote resource service and the remote-execution driver. The collaborators
  are parameters of the model (records of functions); every call to one of them that has
  an effect is written to an event log, and every exception is a value.
\<close>

subsection \<open>Python strings, paths and exceptions\<close>

text \<open>
  Every \<open>raise\<close> of the module raises \<open>ValueError\<close> with a message; the collaborators
  may raise anything. \<open>except ValueError\<close> tells the two apart, so the model does too.
\<close>

datatype error =
    ValueError string
  | OtherError string

text \<open>\<open>s.startswith(p)\<close>.\<close>

fun startswith :: "string \<Rightarrow> string \<Rightarrow> bool" where
  "startswith s [] = True"
| "startswith [] (c # p) = False"
| "startswith (x # s) (c # p) = (x = c \<and> startswith s p)"

text \<open>\<open>p in s\<close> on strings: \<open>p\<close> occurs in \<open>s\<close> as a contiguous run.\<close>

fun str_contains :: "string \<Rightarrow> string \<Rightarrow> bool" where
  "str_contains [] p = (p = [])"
| "str_contains (x # s) p = (startswith (x # s) p \<or> str_contains s p)"

text \<open>\<open>s.endswith("/")\<close>.\<close>

definition ends_with_sep :: "string \<Rightarrow> bool" where
  "ends_with_sep s = (s \<noteq> [] \<and> last s = CHR ''/'')"

text \<open>
  \<open>os.path.join(a, b)\<close> of \<open>posixpath\<close> with two arguments: an absolute \<open>b\<close> replaces
  \<open>a\<close>; otherwise \<open>b\<close> is appended, after a separator unless \<open>a\<close> is empty or already
  ends with one. In particular \<open>os.path.join(a, "")\<close> appends a separator.
\<close>

definition path_join :: "string \<Rightarrow> string \<Rightarrow> string" where
  "path_join a b =
     (if startswith b ''/'' then b
      else if a = [] \<or> ends_with_sep a then a @ b
      else a @ ''/'' @ b)"

definition SKLEARN_FILE_NAME :: string where "SKLEARN_FILE_NAME = ''model.pkl''"
definition TF_DIR_NAME :: string where "TF_DIR_NAME = ''saved_model''"
definition PYTORCH_FILE_NAME :: string where "PYTORCH_FILE_NAME = ''model.mar''"
definition REWRAPPER_NAME :: string where "REWRAPPER_NAME = ''rewrapper''"
definition OUTPUT_DIR :: string where "OUTPUT_DIR = ''output''"
definition OUTPUT_ESTIMATOR_DIR :: string where "OUTPUT_ESTIMATOR_DIR = ''output_estimator''"

subsection \<open>Model objects and the remote-execution wrapper\<close>

text \<open>
  What the module inspects of a model object: \<open>model.__module__\<close>, whether it has the
  attributes \<open>_tracking_metadata\<close> and \<open>state_dict\<close>, its framework-specific content
  (opaque here) and the remote-execution wrapper attached to it, if any.
\<close>

record model =
  py_module :: string
  has_tracking_metadata :: bool
  has_state_dict :: bool
  payload :: nat
  wrapper :: "nat option"

text \<open>A rewrapper is a closure over the wrapper it took off.\<close>

type_synonym rewrapper = "nat option"

text \<open>
  Modelled from the spec: \<open>driver._unwrapper\<close> is not part of the sources at hand. The
  spec has it extract and detach any remote-execution wrapper from the model, producing a
  rewrapper and an unwrapped model; the model object is changed in place, so the changed
  model is returned next to the rewrapper.
\<close>

definition unwrapper :: "model \<Rightarrow> rewrapper \<times> model" where
  "unwrapper m = (wrapper m, m\<lparr>wrapper := None\<rparr>)"

text \<open>
  Modelled from the spec: calling the rewrapper, \<open>rewrapper(model)\<close>, re-applies the
  captured wrapper to the model in place; a rewrapper that captured nothing leaves the
  model as it is.
\<close>

definition call_rewrapper :: "rewrapper \<Rightarrow> model \<Rightarrow> model" where
  "call_rewrapper rw m = (case rw of None \<Rightarrow> m | Some w \<Rightarrow> m\<lparr>wrapper := Some w\<rparr>)"

text \<open>The Python objects handed to the serializer.\<close>

datatype obj =
    Model_obj model
  | Rewrapper_obj rewrapper

subsection \<open>Remote resources and the event log\<close>

text \<open>The keyword arguments of \<open>aiplatform.Model.upload\<close> as the module passes them.\<close>

record upload_request =
  display_name :: string
  artifact_uri :: string
  serving_container_image_uri :: string
  upload_labels :: "(string \<times> string) list"
  sync :: bool

text \<open>
  A Model resource as the module reads it: its resource name, \<open>uri\<close>,
  \<open>container_spec.image_uri\<close> and \<open>labels\<close>. The labels are a dict; the association
  list keeps the iteration order (keys are distinct in a dict).
\<close>

record vertex_model =
  resource_name :: string
  uri :: string
  image_uri :: string
  labels :: "(string \<times> string) list"

text \<open>
  The calls with an effect, in the order they are made. \<open>Get_container_uri\<close> carries the
  arguments \<open>framework\<close>, \<open>framework_version\<close> and \<open>accelerator\<close>
  (\<open>None\<close> when the call does not pass one). The last six are the calls of
  \<open>from_pretrained\<close>: fetching a Model resource, \<open>serializer.deserialize\<close>, constructing
  a \<open>_PublisherModel\<close>, \<open>_model_garden_models._from_pretrained\<close>, fetching a CustomJob
  and waiting for it to complete.
\<close>

datatype event =
    Unwrap
  | Rewrap
  | Serialize obj string "string option"
  | Get_container_uri string string "string option"
  | Upload upload_request
  | Get_model string
  | Deserialize string
  | Get_publisher_model string
  | Garden_from_pretrained string
  | Get_job string
  | Poll_job string

text \<open>A computation: its result or exception, and the calls it made.\<close>

type_synonym 'a comp = "(error + 'a) \<times> event list"

definition call :: "event \<Rightarrow> error + 'a \<Rightarrow> 'a comp" where
  "call ev r = (r, [ev])"

definition bind :: "'a comp \<Rightarrow> ('a \<Rightarrow> 'b comp) \<Rightarrow> 'b comp" where
  "bind c f =
     (case c of
        (Inl e, evs) \<Rightarrow> (Inl e, evs)
      | (Inr x, evs) \<Rightarrow> (case f x of (r, evs') \<Rightarrow> (r, evs @ evs')))"

text \<open>
  The collaborators of \<open>register\<close>: \<open>utils.timestamped_unique_name()\<close>, the
  constructor \<open>any_serializer.AnySerializer()\<close> (\<open>None\<close>: constructed),
  \<open>serializer.serialize(obj, path, save_format=...)\<close> (\<open>None\<close>: written),
  \<open>aiplatform.helpers.get_prebuilt_prediction_container_uri\<close> and
  \<open>aiplatform.Model.upload\<close>. Each but the first may raise.
\<close>

record register_env =
  timestamped_unique_name :: string
  AnySerializer :: "error option"
  serialize :: "obj \<Rightarrow> string \<Rightarrow> string option \<Rightarrow> error option"
  get_prebuilt_prediction_container_uri :: "string \<Rightarrow> string \<Rightarrow> string option \<Rightarrow> error + string"
  Model_upload :: "upload_request \<Rightarrow> error + vertex_model"

definition do_serialize :: "register_env \<Rightarrow> obj \<Rightarrow> string \<Rightarrow> string option \<Rightarrow> unit comp" where
  "do_serialize env ob path fmt =
     call (Serialize ob path fmt)
       (case serialize env ob path fmt of Some e \<Rightarrow> Inl e | None \<Rightarrow> Inr ())"

definition do_container_uri :: "register_env \<Rightarrow> string \<Rightarrow> string \<Rightarrow> string option \<Rightarrow> string comp" where
  "do_container_uri env fw ver acc =
     call (Get_container_uri fw ver acc) (get_prebuilt_prediction_container_uri env fw ver acc)"

definition do_upload :: "register_env \<Rightarrow> upload_request \<Rightarrow> vertex_model comp" where
  "do_upload env req = call (Upload req) (Model_upload env req)"

definition registered_labels :: "(string \<times> string) list" where
  "registered_labels = [(''registered_by_vertex_ai'', ''true'')]"

subsection \<open>register\<close>

definition register_sklearn_model ::
  "register_env \<Rightarrow> model \<Rightarrow> string \<Rightarrow> rewrapper \<Rightarrow> vertex_model comp" where
  "register_sklearn_model env model staging_bucket rewrapper =
     (let unique_model_name =
            ''vertex-ai-registered-sklearn-model-'' @ timestamped_unique_name env;
          gcs_dir = path_join staging_bucket unique_model_name
      in bind (do_serialize env (Rewrapper_obj rewrapper) (path_join gcs_dir REWRAPPER_NAME) None) (\<lambda>_.
         bind (do_serialize env (Model_obj model) (path_join gcs_dir SKLEARN_FILE_NAME) None) (\<lambda>_.
         bind (do_container_uri env ''sklearn'' ''1.0'' None) (\<lambda>container_image_uri.
         do_upload env
           \<lparr>display_name = unique_model_name,
            artifact_uri = gcs_dir,
            serving_container_image_uri = container_image_uri,
            upload_labels = registered_labels,
            sync = True\<rparr>))))"

definition register_tf_model ::
  "register_env \<Rightarrow> model \<Rightarrow> string \<Rightarrow> rewrapper \<Rightarrow> bool \<Rightarrow> vertex_model comp" where
  "register_tf_model env model staging_bucket rewrapper use_gpu =
     (let unique_model_name =
            ''vertex-ai-registered-tensorflow-model-'' @ timestamped_unique_name env;
          gcs_dir = path_join staging_bucket unique_model_name;
          file_path = path_join gcs_dir TF_DIR_NAME
      in bind (do_serialize env (Rewrapper_obj rewrapper)
                 (path_join gcs_dir (TF_DIR_NAME @ ''/'' @ REWRAPPER_NAME)) None) (\<lambda>_.
         bind (do_serialize env (Model_obj model) file_path (Some ''tf'')) (\<lambda>_.
         bind (do_container_uri env ''tensorflow'' ''2.11''
                 (Some (if use_gpu then ''gpu'' else ''cpu''))) (\<lambda>container_image_uri.
         do_upload env
           \<lparr>display_name = unique_model_name,
            artifact_uri = file_path,
            serving_container_image_uri = container_image_uri,
            upload_labels = registered_labels,
            sync = True\<rparr>))))"

definition register_pytorch_model ::
  "register_env \<Rightarrow> model \<Rightarrow> string \<Rightarrow> rewrapper \<Rightarrow> bool \<Rightarrow> vertex_model comp" where
  "register_pytorch_model env model staging_bucket rewrapper use_gpu =
     (let unique_model_name =
            ''vertex-ai-registered-pytorch-model-'' @ timestamped_unique_name env;
          gcs_dir = path_join staging_bucket unique_model_name
      in bind (do_serialize env (Rewrapper_obj rewrapper) (path_join gcs_dir REWRAPPER_NAME) None) (\<lambda>_.
         bind (do_serialize env (Model_obj model) (path_join gcs_dir PYTORCH_FILE_NAME) None) (\<lambda>_.
         bind (do_container_uri env ''pytorch'' ''1.12''
                 (Some (if use_gpu then ''gpu'' else ''cpu''))) (\<lambda>container_image_uri.
         do_upload env
           \<lparr>display_name = unique_model_name,
            artifact_uri = gcs_dir,
            serving_container_image_uri = container_image_uri,
            upload_labels = registered_labels,
            sync = True\<rparr>))))"

text \<open>
  The exceptions the module raises are all \<open>ValueError\<close>; they are named here after the
  spec's taxonomy and carry the source's messages.
\<close>

definition ConfigurationError :: error where
  "ConfigurationError =
     ValueError (''A default staging bucket is required to upload the model file. '' @
                 ''Please call `vertexai.init(staging_bucket='gs://my-bucket').'')"

definition UnsupportedFrameworkError_upload :: error where
  "UnsupportedFrameworkError_upload = ValueError ''Support uploading PyTorch, scikit-learn and TensorFlow only.''"

text \<open>
  \<open>register(model, use_gpu)\<close>, with the process-wide staging bucket as an argument
  (\<open>None\<close> or the empty string when it is not set: \<open>not staging_bucket\<close>). The model
  object is changed in place, so the result holds the exception or the registered model,
  the model object as the call leaves it, and the calls made. The serializer is
  constructed after the unwrap and before the \<open>try\<close>: an exception of the constructor
  leaves the function there. The \<open>try\<close> re-raises what it catches, and its \<open>finally\<close>
  calls the rewrapper on every way out of the block.
\<close>

definition register ::
  "register_env \<Rightarrow> string option \<Rightarrow> model \<Rightarrow> bool \<Rightarrow> (error + vertex_model) \<times> model \<times> event list" where
  "register env staging_bucket model use_gpu =
     (case staging_bucket of
        None \<Rightarrow> (Inl ConfigurationError, model, [])
      | Some sb \<Rightarrow>
          if sb = [] then (Inl ConfigurationError, model, [])
          else
            (case unwrapper model of (rewrapper, model) \<Rightarrow>
               (case AnySerializer env of
                  Some e \<Rightarrow> (Inl e, model, [Unwrap])
                | None \<Rightarrow>
                    (case
                       (if startswith (py_module model) ''sklearn'' then
                          register_sklearn_model env model sb rewrapper
                        else if startswith (py_module model) ''keras'' \<or> has_tracking_metadata model then
                          register_tf_model env model sb rewrapper use_gpu
                        else if str_contains (py_module model) ''torch'' \<or> has_state_dict model then
                          register_pytorch_model env model sb rewrapper use_gpu
                        else (Inl UnsupportedFrameworkError_upload, []))
                     of (res, evs) \<Rightarrow>
                       (res, call_rewrapper rewrapper model, Unwrap # evs @ [Rewrap])))))"

subsection \<open>from\_pretrained: helpers\<close>

text \<open>\<open>_get_model_file_from_image_uri\<close>: substring tests, in this order.\<close>

definition UnsupportedFrameworkError_load :: error where
  "UnsupportedFrameworkError_load = ValueError ''Support loading PyTorch, scikit-learn and TensorFlow only.''"

definition get_model_file_from_image_uri :: "string \<Rightarrow> error + string" where
  "get_model_file_from_image_uri container_image_uri =
     (if str_contains container_image_uri ''tf'' then Inr ''''
      else if str_contains container_image_uri ''sklearn'' then Inr SKLEARN_FILE_NAME
      else if str_contains container_image_uri ''pytorch'' then Inr PYTORCH_FILE_NAME
      else Inl UnsupportedFrameworkError_load)"

text \<open>Truthiness of an \<open>Optional[str]\<close>: \<open>None\<close> and the empty string are false.\<close>

definition truthy :: "string option \<Rightarrow> bool" where
  "truthy v = (case v of None \<Rightarrow> False | Some s \<Rightarrow> s \<noteq> [])"

text \<open>
  A CustomJob as the module reads it. \<open>job.state\<close> is read from the service at each
  access: \<open>job_states j n\<close> is what the \<open>n\<close>-th read returns.
\<close>

datatype job_state =
    JOB_STATE_UNSPECIFIED
  | JOB_STATE_QUEUED
  | JOB_STATE_PENDING
  | JOB_STATE_RUNNING
  | JOB_STATE_SUCCEEDED
  | JOB_STATE_FAILED
  | JOB_STATE_CANCELLING
  | JOB_STATE_CANCELLED
  | JOB_STATE_PAUSED
  | JOB_STATE_EXPIRED
  | JOB_STATE_UPDATING
  | JOB_STATE_PARTIALLY_SUCCEEDED

record custom_job =
  job_name :: string
  job_labels :: "(string \<times> string) list"
  output_uri_prefix :: string
  job_states :: "nat \<Rightarrow> job_state"

definition UnverifiedJobError :: error where
  "UnverifiedJobError =
     ValueError (''This job wasn't created with SDK remote training, or it was created '' @
                 ''with a Vertex SDK version <= 1.32.0'')"

text \<open>\<open>_verify_custom_job\<close>: \<open>None\<close> when the job passes.\<close>

definition verify_custom_job :: "custom_job \<Rightarrow> error option" where
  "verify_custom_job job =
     (if \<not> truthy (map_of (job_labels job) ''trained_by_vertex_ai'')
         \<or> map_of (job_labels job) ''trained_by_vertex_ai'' \<noteq> Some ''true''
      then Some UnverifiedJobError else None)"

definition generate_remote_job_output_path :: "string \<Rightarrow> string" where
  "generate_remote_job_output_path base_gcs_dir = path_join base_gcs_dir OUTPUT_DIR"

text \<open>
  The publisher-model handle and the Model Garden model built from it are opaque; the
  collaborators of \<open>from_pretrained\<close> are: the \<open>aiplatform.Model\<close> constructor (a fetch by
  name), \<open>serializer.deserialize\<close>, \<open>_language_models._get_model_id_from_tuning_model_id\<close>,
  the \<open>_PublisherModel\<close> constructor, \<open>_model_garden_models._from_pretrained\<close> (model name,
  publisher model, tuned model if any), \<open>aiplatform.CustomJob.get\<close> and the tuple
  \<open>aiplatform.jobs._JOB_PENDING_STATES\<close>. Each call may raise.
\<close>

datatype publisher_model = Publisher_model nat

datatype garden_model = Garden_model nat

record pretrained_env =
  get_Model :: "string \<Rightarrow> error + vertex_model"
  deserialize :: "string \<Rightarrow> error + obj"
  get_model_id_from_tuning_model_id :: "string \<Rightarrow> string"
  PublisherModel :: "string \<Rightarrow> error + publisher_model"
  model_garden_from_pretrained ::
    "string \<Rightarrow> publisher_model \<Rightarrow> vertex_model option \<Rightarrow> error + garden_model"
  CustomJob_get :: "string \<Rightarrow> error + custom_job"
  JOB_PENDING_STATES :: "job_state list"

text \<open>What \<open>from_pretrained\<close> returns: a deserialized object, a Model Garden model, or
  \<open>None\<close> when the function body runs to its end.\<close>

datatype pretrained =
    Loaded obj
  | Garden garden_model
  | Py_None

definition do_deserialize :: "pretrained_env \<Rightarrow> string \<Rightarrow> obj comp" where
  "do_deserialize env path = call (Deserialize path) (deserialize env path)"

text \<open>
  Modelled from the spec: calling a deserialized rewrapper on a deserialized object. Only
  a rewrapper is callable (anything else raises \<open>TypeError\<close>), and only a model carries a
  wrapper.
\<close>

definition apply_rewrapper :: "obj \<Rightarrow> obj \<Rightarrow> error + obj" where
  "apply_rewrapper rewrapper ob =
     (case rewrapper of
        Rewrapper_obj rw \<Rightarrow>
          (case ob of
             Model_obj m \<Rightarrow> Inr (Model_obj (call_rewrapper rw m))
           | Rewrapper_obj x \<Rightarrow> Inr (Rewrapper_obj x))
      | Model_obj _ \<Rightarrow> Inl (OtherError ''TypeError''))"

text \<open>\<open>_get_model_from_successful_custom_job\<close>.\<close>

definition get_model_from_successful_custom_job :: "pretrained_env \<Rightarrow> string \<Rightarrow> pretrained comp" where
  "get_model_from_successful_custom_job env job_dir =
     bind (do_deserialize env
             (path_join (generate_remote_job_output_path job_dir) OUTPUT_ESTIMATOR_DIR)) (\<lambda>model.
     bind (do_deserialize env
             (path_join (generate_remote_job_output_path job_dir) REWRAPPER_NAME)) (\<lambda>rewrapper.
     case apply_rewrapper rewrapper model of
       Inl e \<Rightarrow> (Inl e, [])
     | Inr model \<Rightarrow> (Inr (Loaded model), [])))"

definition InvalidModelGardenReferenceError :: error where
  "InvalidModelGardenReferenceError = ValueError ''Please provide a valid Model Garden model resource.''"

text \<open>\<open>_get_publisher_model_resource\<close>: the bare \<open>except\<close> turns every exception of the
  constructor into the one \<open>ValueError\<close>.\<close>

definition get_publisher_model_resource :: "pretrained_env \<Rightarrow> string \<Rightarrow> publisher_model comp" where
  "get_publisher_model_resource env short_model_name =
     (let short_model_name =
            (if \<not> str_contains short_model_name ''/''
             then ''publishers/google/models/'' @ short_model_name
             else short_model_name)
      in call (Get_publisher_model short_model_name)
           (case PublisherModel env short_model_name of
              Inl _ \<Rightarrow> Inl InvalidModelGardenReferenceError
            | Inr publisher_model_resource \<Rightarrow> Inr publisher_model_resource))"

text \<open>The \<open>repr\<close> of a list of plain names, as the f-string prints \<open>list(fn_args.keys())\<close>.\<close>

fun py_repr_items :: "string list \<Rightarrow> string" where
  "py_repr_items [] = []"
| "py_repr_items [k] = [CHR 0x27] @ k @ [CHR 0x27]"
| "py_repr_items (k # ks) = [CHR 0x27] @ k @ [CHR 0x27] @ '', '' @ py_repr_items ks"

definition py_repr_list :: "string list \<Rightarrow> string" where
  "py_repr_list ks = ''['' @ py_repr_items ks @ '']''"

definition ArgumentError :: "string list \<Rightarrow> error" where
  "ArgumentError keys =
     ValueError (''Exactly one of '' @ py_repr_list keys @ '' must be provided to from_pretrained.'')"

text \<open>\<open>_check_from_pretrained_passed_exactly_one_arg\<close>: the loop counts the values that
  are not \<open>None\<close>; \<open>None\<close> is returned when the check passes.\<close>

definition check_from_pretrained_passed_exactly_one_arg ::
  "(string \<times> string option) list \<Rightarrow> error option" where
  "check_from_pretrained_passed_exactly_one_arg fn_args =
     (let passed_args =
            fold (\<lambda>(_, argval) passed_args.
                    if argval \<noteq> None then passed_args + 1 else passed_args) fn_args (0::nat)
      in if passed_args \<noteq> 1 then Some (ArgumentError (map fst fn_args)) else None)"

subsection \<open>from\_pretrained: the registered-model path\<close>

text \<open>
  \<open>re.match(r"(^[a-z]+-[a-z]+-[0-9]{3}$)", s)\<close>. The two letter runs are each followed by
  a dash, which is no letter, so the greedy match is the only one; \<open>$\<close> matches at the
  end of the string and before a newline that ends it.
\<close>

definition is_lower :: "char \<Rightarrow> bool" where
  "is_lower c = (97 \<le> (of_char c :: nat) \<and> (of_char c :: nat) \<le> 122)"

definition is_digit :: "char \<Rightarrow> bool" where
  "is_digit c = (48 \<le> (of_char c :: nat) \<and> (of_char c :: nat) \<le> 57)"

definition re_match_publisher_model_label :: "string \<Rightarrow> bool" where
  "re_match_publisher_model_label s =
     (case dropWhile is_lower s of
        [] \<Rightarrow> False
      | c # r \<Rightarrow>
          takeWhile is_lower s \<noteq> [] \<and> c = CHR ''-'' \<and>
          (case dropWhile is_lower r of
             [] \<Rightarrow> False
           | d # t \<Rightarrow>
               takeWhile is_lower r \<noteq> [] \<and> d = CHR ''-'' \<and>
               list_all is_digit (take 3 t) \<and> 3 \<le> length t \<and>
               (drop 3 t = [] \<or> drop 3 t = [CHR 0x0A])))"

definition NotRegisteredError :: "string \<Rightarrow> error" where
  "NotRegisteredError model_name =
     ValueError (''The model '' @ model_name @
       '' was not registered through `vertexai.preview.register` or created from Model Garden.'')"

definition NotFromModelGardenError :: "string \<Rightarrow> error" where
  "NotFromModelGardenError model_name =
     ValueError (''The model '' @ model_name @ '' was not created from a Model Garden model.'')"

text \<open>
  The loop over the label keys of a model that is not registered by this workflow. A label
  whose value matches is tried: the publisher model is resolved and the tuned model built;
  a \<open>ValueError\<close> of the attempt moves on to the next key, any other exception leaves
  the function. \<open>labels.get(key)\<close> of a key of the dict is never \<open>None\<close>; the regular
  expression would raise \<open>TypeError\<close> on it.
\<close>

fun scan_labels ::
  "pretrained_env \<Rightarrow> string \<Rightarrow> vertex_model \<Rightarrow> string list \<Rightarrow> pretrained comp" where
  "scan_labels env model_name vertex_model [] = (Inl (NotFromModelGardenError model_name), [])"
| "scan_labels env model_name vertex_model (label_key # keys) =
     (case map_of (labels vertex_model) label_key of
        None \<Rightarrow> (Inl (OtherError ''TypeError''), [])
      | Some publisher_model_label \<Rightarrow>
          if re_match_publisher_model_label publisher_model_label then
            (let short_model_id = get_model_id_from_tuning_model_id env publisher_model_label
             in case bind (get_publisher_model_resource env short_model_id) (\<lambda>publisher_model.
                       call (Garden_from_pretrained short_model_id)
                         (case model_garden_from_pretrained env short_model_id publisher_model
                                 (Some vertex_model) of
                            Inl e \<Rightarrow> Inl e
                          | Inr g \<Rightarrow> Inr (Garden g)))
                of (Inl (ValueError _), evs) \<Rightarrow>
                     (case scan_labels env model_name vertex_model keys of
                        (r, evs') \<Rightarrow> (r, evs @ evs'))
                 | (Inl (OtherError x), evs) \<Rightarrow> (Inl (OtherError x), evs)
                 | (Inr g, evs) \<Rightarrow> (Inr g, evs))
          else scan_labels env model_name vertex_model keys)"

text \<open>The body of \<open>if model_name:\<close>. Every branch returns or raises.\<close>

definition from_model_name :: "pretrained_env \<Rightarrow> string \<Rightarrow> pretrained comp" where
  "from_model_name env model_name =
     bind (call (Get_model model_name) (get_Model env model_name)) (\<lambda>vertex_model.
       if map_of (labels vertex_model) ''registered_by_vertex_ai'' = Some ''true'' then
         (case get_model_file_from_image_uri (image_uri vertex_model) of
            Inl e \<Rightarrow> (Inl e, [])
          | Inr model_file \<Rightarrow>
              bind (do_deserialize env (path_join (uri vertex_model) model_file)) (\<lambda>model.
              bind (do_deserialize env (path_join (uri vertex_model) REWRAPPER_NAME)) (\<lambda>rewrapper.
              case apply_rewrapper rewrapper model of
                Inl e \<Rightarrow> (Inl e, [])
              | Inr model \<Rightarrow> (Inr (Loaded model), []))))
       else if labels vertex_model = [] then (Inl (NotRegisteredError model_name), [])
       else scan_labels env model_name vertex_model (map fst (labels vertex_model)))"

subsection \<open>from\_pretrained: the training-job path\<close>

text \<open>
  Modelled from the spec: \<open>training._get_remote_logs_until_complete\<close> is not part of the
  sources at hand. The spec has it block, polling the job's logs and status, until the
  job reaches a terminal state, with no timeout; its state machine takes every state that
  is not pending or running for terminal. Reads of \<open>job.state\<close> are numbered: the loop
  starts at read \<open>n\<close> and returns the number of the next read once a read has shown a
  state outside the pending ones. When no read does, the call never returns: \<open>None\<close>.
\<close>

partial_function (option) get_remote_logs_until_complete ::
  "job_state list \<Rightarrow> custom_job \<Rightarrow> nat \<Rightarrow> nat option" where
  "get_remote_logs_until_complete pending job n =
     (if job_states job n \<in> set pending
      then get_remote_logs_until_complete pending job (Suc n)
      else Some (Suc n))"

definition JobNotSucceededError :: error where
  "JobNotSucceededError =
     ValueError (''The provided job did not complete successfully. '' @
                 ''Please provide a pending or successful customJob ID.'')"

text \<open>
  The body of \<open>if custom_job_name:\<close>. The state is read once before the job is verified;
  when it is a pending one, the function waits and reads the state again. Every branch
  returns or raises, unless the wait never ends.
\<close>

definition from_custom_job :: "pretrained_env \<Rightarrow> string \<Rightarrow> (pretrained comp) option" where
  "from_custom_job env custom_job_name =
     (case CustomJob_get env custom_job_name of
        Inl e \<Rightarrow> Some (Inl e, [Get_job custom_job_name])
      | Inr job \<Rightarrow>
          (let job_state = job_states job 0 in
           case verify_custom_job job of
             Some e \<Rightarrow> Some (Inl e, [Get_job custom_job_name])
           | None \<Rightarrow>
               (let job_dir = output_uri_prefix job in
                case (if job_state \<in> set (JOB_PENDING_STATES env) then
                        (case get_remote_logs_until_complete (JOB_PENDING_STATES env) job 1 of
                           None \<Rightarrow> None
                         | Some n \<Rightarrow> Some (job_states job n, [Poll_job (job_name job)]))
                      else Some (job_state, []))
                of None \<Rightarrow> None
                 | Some (job_state, evs) \<Rightarrow>
                     Some (if job_state = JOB_STATE_SUCCEEDED then
                             (case get_model_from_successful_custom_job env job_dir of
                                (r, evs') \<Rightarrow> (r, Get_job custom_job_name # evs @ evs'))
                           else (Inl JobNotSucceededError, Get_job custom_job_name # evs)))))"

subsection \<open>from\_pretrained\<close>

text \<open>The body of \<open>if foundation_model_name:\<close>.\<close>

definition from_foundation_model_name :: "pretrained_env \<Rightarrow> string \<Rightarrow> pretrained comp" where
  "from_foundation_model_name env foundation_model_name =
     bind (get_publisher_model_resource env foundation_model_name) (\<lambda>publisher_model.
       call (Garden_from_pretrained foundation_model_name)
         (case model_garden_from_pretrained env foundation_model_name publisher_model None of
            Inl e \<Rightarrow> Inl e
          | Inr g \<Rightarrow> Inr (Garden g)))"

text \<open>The string of an argument that passed its truthiness test.\<close>

definition str_of :: "string option \<Rightarrow> string" where
  "str_of v = (case v of None \<Rightarrow> [] | Some s \<Rightarrow> s)"

text \<open>
  \<open>from_pretrained(model_name=..., custom_job_name=..., foundation_model_name=...)\<close>.
  \<open>locals()\<close> at the first statement holds the three arguments in their order. The three
  \<open>if\<close> blocks test truthiness; each returns or raises on every branch, so a later block
  runs only when the tests before it failed, and the function returns \<open>None\<close> when all
  three fail. The result is \<open>None\<close> (of the option) when the wait for a job never ends.
\<close>

definition from_pretrained ::
  "pretrained_env \<Rightarrow> string option \<Rightarrow> string option \<Rightarrow> string option \<Rightarrow> (pretrained comp) option" where
  "from_pretrained env model_name custom_job_name foundation_model_name =
     (case check_from_pretrained_passed_exactly_one_arg
             [(''model_name'', model_name),
              (''custom_job_name'', custom_job_name),
              (''foundation_model_name'', foundation_model_name)] of
        Some e \<Rightarrow> Some (Inl e, [])
      | None \<Rightarrow>
          if truthy model_name then Some (from_model_name env (str_of model_name))
          else if truthy custom_job_name then from_custom_job env (str_of custom_job_name)
          else if truthy foundation_model_name then
            Some (from_foundation_model_name env (str_of foundation_model_name))
          else Some (Inr Py_None, []))"

subsection \<open>The claims' words as definitions\<close>

datatype framework = Sklearn | Tensorflow | Pytorch


text \<open>The same with \<open>torch\<close> anywhere in the module name.\<close>

definition detected_framework :: "model \<Rightarrow> framework option" where
  "detected_framework m =
     (if prefix ''sklearn'' (py_module m) then Some Sklearn
      else if prefix ''keras'' (py_module m) \<or> has_tracking_metadata m then Some Tensorflow
      else if sublist ''torch'' (py_module m) \<or> has_state_dict m then Some Pytorch
      else None)"

text \<open>The framework-specific registration routine.\<close>

definition register_as ::
  "framework \<Rightarrow> register_env \<Rightarrow> model \<Rightarrow> string \<Rightarrow> rewrapper \<Rightarrow> bool \<Rightarrow> vertex_model comp" where
  "register_as f env m sb rw use_gpu =
     (case f of
        Sklearn \<Rightarrow> register_sklearn_model env m sb rw
      | Tensorflow \<Rightarrow> register_tf_model env m sb rw use_gpu
      | Pytorch \<Rightarrow> register_pytorch_model env m sb rw use_gpu)"

text \<open>The exception a collaborator of \<open>register\<close> raises at a call of the log, if any.\<close>

definition raised_at :: "register_env \<Rightarrow> event \<Rightarrow> error option" where
  "raised_at env ev =
     (case ev of
        Serialize ob path fmt \<Rightarrow> serialize env ob path fmt
      | Get_container_uri fw ver acc \<Rightarrow>
          (case get_prebuilt_prediction_container_uri env fw ver acc of
             Inl e \<Rightarrow> Some e | Inr _ \<Rightarrow> None)
      | Upload req \<Rightarrow> (case Model_upload env req of Inl e \<Rightarrow> Some e | Inr _ \<Rightarrow> None)
      | _ \<Rightarrow> None)"

text \<open>The image URI the container helper answers at a call of the log, if it does.\<close>

definition container_answer :: "register_env \<Rightarrow> event \<Rightarrow> string option" where
  "container_answer env ev =
     (case ev of
        Get_container_uri fw ver acc \<Rightarrow>
          (case get_prebuilt_prediction_container_uri env fw ver acc of
             Inl _ \<Rightarrow> None | Inr u \<Rightarrow> Some u)
      | _ \<Rightarrow> None)"

definition is_serialize :: "event \<Rightarrow> bool" where
  "is_serialize ev = (case ev of Serialize _ _ _ \<Rightarrow> True | _ \<Rightarrow> False)"

definition is_get_container_uri :: "event \<Rightarrow> bool" where
  "is_get_container_uri ev = (case ev of Get_container_uri _ _ _ \<Rightarrow> True | _ \<Rightarrow> False)"

definition is_upload :: "event \<Rightarrow> bool" where
  "is_upload ev = (case ev of Upload _ \<Rightarrow> True | _ \<Rightarrow> False)"

text \<open>
  The call to the container helper as the specification words it: the version pinned per
  framework, and the accelerator chosen from \<open>use_gpu\<close> for each of the three.
\<close>

definition claimed_container_call :: "framework \<Rightarrow> bool \<Rightarrow> event" where
  "claimed_container_call f use_gpu =
     (case f of
        Sklearn \<Rightarrow> Get_container_uri ''sklearn'' ''1.0'' (Some (if use_gpu then ''gpu'' else ''cpu''))
      | Tensorflow \<Rightarrow> Get_container_uri ''tensorflow'' ''2.11'' (Some (if use_gpu then ''gpu'' else ''cpu''))
      | Pytorch \<Rightarrow> Get_container_uri ''pytorch'' ''1.12'' (Some (if use_gpu then ''gpu'' else ''cpu'')))"

text \<open>The same with no accelerator passed for sklearn.\<close>

definition container_call :: "framework \<Rightarrow> bool \<Rightarrow> event" where
  "container_call f use_gpu =
     (case f of
        Sklearn \<Rightarrow> Get_container_uri ''sklearn'' ''1.0'' None
      | Tensorflow \<Rightarrow> Get_container_uri ''tensorflow'' ''2.11'' (Some (if use_gpu then ''gpu'' else ''cpu''))
      | Pytorch \<Rightarrow> Get_container_uri ''pytorch'' ''1.12'' (Some (if use_gpu then ''gpu'' else ''cpu'')))"

text \<open>The name and the staging directory of a registration, and the artifact URI uploaded.\<close>

definition framework_tag :: "framework \<Rightarrow> string" where
  "framework_tag f = (case f of Sklearn \<Rightarrow> ''sklearn'' | Tensorflow \<Rightarrow> ''tensorflow'' | Pytorch \<Rightarrow> ''pytorch'')"

definition registered_name :: "framework \<Rightarrow> register_env \<Rightarrow> string" where
  "registered_name f env =
     ''vertex-ai-registered-'' @ framework_tag f @ ''-model-'' @ timestamped_unique_name env"

definition staging_dir :: "framework \<Rightarrow> register_env \<Rightarrow> string \<Rightarrow> string" where
  "staging_dir f env sb = path_join sb (registered_name f env)"

definition uploaded_uri :: "framework \<Rightarrow> register_env \<Rightarrow> string \<Rightarrow> string" where
  "uploaded_uri f env sb =
     (case f of
        Tensorflow \<Rightarrow> path_join (staging_dir f env sb) TF_DIR_NAME
      | _ \<Rightarrow> staging_dir f env sb)"

text \<open>
  The artifact layout: the paths \<open>register\<close> writes for a framework, and the paths the
  registered-model branch of \<open>from_pretrained\<close> reads for the resource uploaded.
\<close>

definition written_model_path :: "framework \<Rightarrow> register_env \<Rightarrow> string \<Rightarrow> string" where
  "written_model_path f env sb =
     (case f of
        Sklearn \<Rightarrow> path_join (staging_dir f env sb) ''model.pkl''
      | Tensorflow \<Rightarrow> path_join (staging_dir f env sb) ''saved_model''
      | Pytorch \<Rightarrow> path_join (staging_dir f env sb) ''model.mar'')"

definition written_rewrapper_path :: "framework \<Rightarrow> register_env \<Rightarrow> string \<Rightarrow> string" where
  "written_rewrapper_path f env sb =
     (case f of
        Tensorflow \<Rightarrow> path_join (staging_dir f env sb) ''saved_model/rewrapper''
      | _ \<Rightarrow> path_join (staging_dir f env sb) ''rewrapper'')"

definition save_format :: "framework \<Rightarrow> string option" where
  "save_format f = (case f of Tensorflow \<Rightarrow> Some ''tf'' | _ \<Rightarrow> None)"

definition model_file_of :: "framework \<Rightarrow> string" where
  "model_file_of f = (case f of Sklearn \<Rightarrow> ''model.pkl'' | Tensorflow \<Rightarrow> [] | Pytorch \<Rightarrow> ''model.mar'')"

definition read_model_path :: "framework \<Rightarrow> register_env \<Rightarrow> string \<Rightarrow> string" where
  "read_model_path f env sb = path_join (uploaded_uri f env sb) (model_file_of f)"

definition read_rewrapper_path :: "framework \<Rightarrow> register_env \<Rightarrow> string \<Rightarrow> string" where
  "read_rewrapper_path f env sb = path_join (uploaded_uri f env sb) ''rewrapper''"

text \<open>
  The model-file name as the specification words it: \<open>tf\<close> gives the empty name (the whole
  directory), \<open>sklearn\<close> gives \<open>model.pkl\<close>, \<open>pytorch\<close> gives \<open>model.mar\<close>, any other
  image URI is refused.
\<close>

definition claimed_model_file :: "string \<Rightarrow> string option" where
  "claimed_model_file u =
     (if sublist ''tf'' u then Some []
      else if sublist ''sklearn'' u then Some ''model.pkl''
      else if sublist ''pytorch'' u then Some ''model.mar''
      else None)"

text \<open>
  Loading a registered model as the specification words it: the model and the rewrapper
  are deserialized from the artifact URI, the rewrapper is applied, the model is returned.
  An exception of the serializer leaves the function.
\<close>

definition load_registered :: "pretrained_env \<Rightarrow> vertex_model \<Rightarrow> error + pretrained" where
  "load_registered env vm =
     (case claimed_model_file (image_uri vm) of
        None \<Rightarrow> Inl UnsupportedFrameworkError_load
      | Some file \<Rightarrow>
          (case deserialize env (path_join (uri vm) file) of
             Inl e \<Rightarrow> Inl e
           | Inr ob \<Rightarrow>
               (case deserialize env (path_join (uri vm) ''rewrapper'') of
                  Inl e \<Rightarrow> Inl e
                | Inr rw \<Rightarrow>
                    (case apply_rewrapper rw ob of
                       Inl e \<Rightarrow> Inl e
                     | Inr ob' \<Rightarrow> Inr (Loaded ob')))))"

text \<open>
  One attempt of the label scan, on a label value: the publisher model is resolved for the
  model id of the value (every failure of the resolution is the one \<open>ValueError\<close>), and
  the tuned model is built from it.
\<close>

definition try_label :: "pretrained_env \<Rightarrow> vertex_model \<Rightarrow> string \<Rightarrow> error + pretrained" where
  "try_label env vm v =
     (let model_id = get_model_id_from_tuning_model_id env v;
          resource = (if sublist ''/'' model_id then model_id
                      else ''publishers/google/models/'' @ model_id)
      in case PublisherModel env resource of
           Inl _ \<Rightarrow> Inl InvalidModelGardenReferenceError
         | Inr pm \<Rightarrow>
             (case model_garden_from_pretrained env model_id pm (Some vm) of
                Inl e \<Rightarrow> Inl e
              | Inr g \<Rightarrow> Inr (Garden g)))"

text \<open>
  The scan over label values: a value that does not match the pattern is passed over; a
  matching one is tried, and the first handle obtained is returned; an attempt that fails
  with a \<open>ValueError\<close> moves on to the next value; when the values are used up the model
  is not from Model Garden. An exception of another class leaves the function.
\<close>

fun first_handle :: "pretrained_env \<Rightarrow> string \<Rightarrow> vertex_model \<Rightarrow> string list \<Rightarrow> error + pretrained" where
  "first_handle env name vm [] = Inl (NotFromModelGardenError name)"
| "first_handle env name vm (v # vs) =
     (if re_match_publisher_model_label v then
        (case try_label env vm v of
           Inr h \<Rightarrow> Inr h
         | Inl (ValueError _) \<Rightarrow> first_handle env name vm vs
         | Inl (OtherError x) \<Rightarrow> Inl (OtherError x))
      else first_handle env name vm vs)"

text \<open>The label values in the order the loop meets them: for each key, what \<open>get\<close> returns.\<close>

definition label_values :: "vertex_model \<Rightarrow> string list" where
  "label_values vm = map (\<lambda>k. str_of (map_of (labels vm) k)) (map fst (labels vm))"

definition is_deserialize :: "event \<Rightarrow> bool" where
  "is_deserialize ev = (case ev of Deserialize _ \<Rightarrow> True | _ \<Rightarrow> False)"

text \<open>
  Loading the model of a succeeded job as the specification words it: the estimator and
  the rewrapper are deserialized from the job's output directory, the rewrapper is applied.
\<close>

definition load_job_output :: "pretrained_env \<Rightarrow> custom_job \<Rightarrow> error + pretrained" where
  "load_job_output env job =
     (case deserialize env (path_join (path_join (output_uri_prefix job) ''output'') ''output_estimator'') of
        Inl e \<Rightarrow> Inl e
      | Inr ob \<Rightarrow>
          (case deserialize env (path_join (path_join (output_uri_prefix job) ''output'') ''rewrapper'') of
             Inl e \<Rightarrow> Inl e
           | Inr rw \<Rightarrow>
               (case apply_rewrapper rw ob of
                  Inl e \<Rightarrow> Inl e
                | Inr ob' \<Rightarrow> Inr (Loaded ob'))))"

text \<open>The number of arguments of \<open>from_pretrained\<close> that are not \<open>None\<close>.\<close>

definition non_null :: "string option list \<Rightarrow> nat" where
  "non_null args = length (filter (\<lambda>v. v \<noteq> None) args)"

text \<open>
  A call of \<open>from_pretrained\<close> has reached a retrieval path when it has called a
  collaborator, or waits for a job without end.
\<close>

definition reached_path :: "(pretrained comp) option \<Rightarrow> bool" where
  "reached_path r = (case r of None \<Rightarrow> True | Some (_, evs) \<Rightarrow> evs \<noteq> [])"

subsection \<open>Sample collaborators\<close>

text \<open>
  Collaborators that never fail, for the concrete runs below. The container helper
  answers in the form of the service's prebuilt images
  (\<open>us-docker.pkg.dev/vertex-ai/prediction/tf2-cpu.2-11:latest\<close>); the upload stores what
  it is given.
\<close>

definition sample_container_uri :: "string \<Rightarrow> string \<Rightarrow> string option \<Rightarrow> string" where
  "sample_container_uri fw ver acc =
     ''us-docker.pkg.dev/vertex-ai/prediction/'' @
     (if fw = ''tensorflow'' then ''tf2'' else fw) @ ''-'' @
     (case acc of None \<Rightarrow> ''cpu'' | Some a \<Rightarrow> a) @ ''.'' @
     map (\<lambda>c. if c = CHR ''.'' then CHR ''-'' else c) ver @ '':latest''"

definition sample_upload :: "upload_request \<Rightarrow> vertex_model" where
  "sample_upload req =
     \<lparr>resource_name = ''projects/1/locations/us-central1/models/42'',
      uri = artifact_uri req,
      image_uri = serving_container_image_uri req,
      labels = upload_labels req\<rparr>"

definition sample_env :: register_env where
  "sample_env =
     \<lparr>timestamped_unique_name = ''2023-10-01-12-00-00-abc12'',
      AnySerializer = None,
      serialize = (\<lambda>_ _ _. None),
      get_prebuilt_prediction_container_uri = (\<lambda>fw ver acc. Inr (sample_container_uri fw ver acc)),
      Model_upload = (\<lambda>req. Inr (sample_upload req))\<rparr>"

definition sample_env_upload_fails :: register_env where
  "sample_env_upload_fails =
     sample_env\<lparr>Model_upload := (\<lambda>req. Inl (OtherError ''ServiceUnavailable''))\<rparr>"

definition sample_env_no_serializer :: register_env where
  "sample_env_no_serializer = sample_env\<lparr>AnySerializer := Some (OtherError ''ImportError'')\<rparr>"

definition sample_model :: "string \<Rightarrow> bool \<Rightarrow> bool \<Rightarrow> model" where
  "sample_model mdl tracking state_dict =
     \<lparr>py_module = mdl, has_tracking_metadata = tracking, has_state_dict = state_dict,
      payload = 7, wrapper = Some 1\<rparr>"

text \<open>
  A serializer store read back by exact path: what the \<open>Serialize\<close> calls of a log wrote,
  the later write winning. \<open>strip_sep\<close> drops one trailing separator, for a store that
  takes a directory with or without it.
\<close>

fun store_of :: "event list \<Rightarrow> string \<Rightarrow> error + obj" where
  "store_of [] p = Inl (OtherError ''NotFound'')"
| "store_of (ev # evs) p =
     (case store_of evs p of
        Inr ob \<Rightarrow> Inr ob
      | Inl e \<Rightarrow>
          (case ev of
             Serialize ob q _ \<Rightarrow> if p = q then Inr ob else Inl e
           | _ \<Rightarrow> Inl e))"

definition strip_sep :: "string \<Rightarrow> string" where
  "strip_sep p = (if ends_with_sep p then butlast p else p)"

text \<open>
  Collaborators of \<open>from_pretrained\<close> over a given registry, store and job service. The
  tuning model id \<open>text-bison-001\<close> stands for the publisher model
  \<open>publishers/google/models/text-bison@001\<close>, the only one the sample catalogue holds.
\<close>

definition sample_model_id :: "string \<Rightarrow> string" where
  "sample_model_id v =
     ''publishers/google/models/'' @ take (length v - 4) v @ ''@'' @ drop (length v - 3) v"

definition sample_penv ::
  "(string \<Rightarrow> error + vertex_model) \<Rightarrow> (string \<Rightarrow> error + obj) \<Rightarrow> (string \<Rightarrow> error + custom_job)
     \<Rightarrow> pretrained_env" where
  "sample_penv models store jobs =
     \<lparr>get_Model = models,
      deserialize = store,
      get_model_id_from_tuning_model_id = sample_model_id,
      PublisherModel =
        (\<lambda>n. if n = ''publishers/google/models/text-bison@001''
              then Inr (Publisher_model 1) else Inl (OtherError ''NotFound'')),
      model_garden_from_pretrained = (\<lambda>n pm tuned. Inr (Garden_model 1)),
      CustomJob_get = jobs,
      JOB_PENDING_STATES =
        [JOB_STATE_QUEUED, JOB_STATE_PENDING, JOB_STATE_RUNNING,
         JOB_STATE_CANCELLING, JOB_STATE_UPDATING]\<rparr>"

definition no_models :: "string \<Rightarrow> error + vertex_model" where
  "no_models n = Inl (OtherError ''NotFound'')"

definition no_store :: "string \<Rightarrow> error + obj" where
  "no_store p = Inl (OtherError ''NotFound'')"

definition no_jobs :: "string \<Rightarrow> error + custom_job" where
  "no_jobs n = Inl (OtherError ''NotFound'')"

definition one_model :: "vertex_model \<Rightarrow> string \<Rightarrow> error + vertex_model" where
  "one_model vm n = (if n = resource_name vm then Inr vm else Inl (OtherError ''NotFound''))"

definition one_job :: "custom_job \<Rightarrow> string \<Rightarrow> error + custom_job" where
  "one_job job n = (if n = job_name job then Inr job else Inl (OtherError ''NotFound''))"

text \<open>A training job with its output, and a job that runs for two reads of its state.\<close>

definition sample_job :: "(nat \<Rightarrow> job_state) \<Rightarrow> (string \<times> string) list \<Rightarrow> custom_job" where
  "sample_job states lbls =
     \<lparr>job_name = ''projects/1/locations/us-central1/customJobs/7'',
      job_labels = lbls,
      output_uri_prefix = ''gs://bucket/custom_job'',
      job_states = states\<rparr>"

definition running_then :: "job_state \<Rightarrow> nat \<Rightarrow> job_state" where
  "running_then s n = (if n < 2 then JOB_STATE_RUNNING else s)"

definition sample_job_store :: "string \<Rightarrow> error + obj" where
  "sample_job_store p =
     (if p = ''gs://bucket/custom_job/output/output_estimator''
      then Inr (Model_obj ((sample_model ''sklearn.svm'' False False)\<lparr>wrapper := None\<rparr>))
      else if p = ''gs://bucket/custom_job/output/rewrapper'' then Inr (Rewrapper_obj (Some 1))
      else Inl (OtherError ''NotFound''))"

text \<open>A tuned model of the sample catalogue, and a model with a stale registration label.\<close>

definition tuned_model :: vertex_model where
  "tuned_model =
     \<lparr>resource_name = ''projects/1/locations/us-central1/models/77'',
      uri = ''gs://bucket/tuned'',
      image_uri = [],
      labels = [(''team'', ''ml''), (''google-vertex-llm-tuning-base-model-id'', ''text-bison-001'')]\<rparr>"

definition unregistered_model :: "string \<Rightarrow> vertex_model" where
  "unregistered_model v =
     \<lparr>resource_name = ''projects/1/locations/us-central1/models/78'',
      uri = ''gs://bucket/vertex-ai-registered-sklearn-model-2023-10-01-12-00-00-abc12'',
      image_uri = ''us-docker.pkg.dev/vertex-ai/prediction/sklearn-cpu.1-0:latest'',
      labels = [(''registered_by_vertex_ai'', v)]\<rparr>"

text \<open>
  A keras model registered with the sample collaborators, the resource the upload returns
  for it, and the collaborators of a retrieval over that resource and a given store.
\<close>

definition keras_model :: model where
  "keras_model = sample_model ''keras.engine.sequential'' True False"

definition keras_run :: "(error + vertex_model) \<times> model \<times> event list" where
  "keras_run = register sample_env (Some ''gs://bucket'') keras_model False"

definition keras_registered :: vertex_model where
  "keras_registered =
     \<lparr>resource_name = ''projects/1/locations/us-central1/models/42'',
      uri = ''gs://bucket/vertex-ai-registered-tensorflow-model-2023-10-01-12-00-00-abc12/saved_model'',
      image_uri = ''us-docker.pkg.dev/vertex-ai/prediction/tf2-cpu.2-11:latest'',
      labels = [(''registered_by_vertex_ai'', ''true'')]\<rparr>"

definition exact_store_env :: pretrained_env where
  "exact_store_env =
     sample_penv (one_model keras_registered) (store_of (snd (snd keras_run))) no_jobs"

definition directory_store_env :: pretrained_env where
  "directory_store_env =
     sample_penv (one_model keras_registered)
       (\<lambda>p. store_of (snd (snd keras_run)) (strip_sep p)) no_jobs"

text \<open>
  A registered sklearn model with its artifacts; and a tuned model with two candidate
  labels over a catalogue in which building the tuned model fails for the first with an
  exception that is no \<open>ValueError\<close> and succeeds for the second.
\<close>

definition sklearn_registered :: vertex_model where
  "sklearn_registered =
     \<lparr>resource_name = ''projects/1/locations/us-central1/models/80'',
      uri = ''gs://bucket/vertex-ai-registered-sklearn-model-2023-10-01-12-00-00-abc12'',
      image_uri = ''us-docker.pkg.dev/vertex-ai/prediction/sklearn-cpu.1-0:latest'',
      labels = [(''registered_by_vertex_ai'', ''true'')]\<rparr>"

definition sklearn_store :: "string \<Rightarrow> error + obj" where
  "sklearn_store p =
     (if p = ''gs://bucket/vertex-ai-registered-sklearn-model-2023-10-01-12-00-00-abc12/model.pkl''
      then Inr (Model_obj ((sample_model ''sklearn.svm'' False False)\<lparr>wrapper := None\<rparr>))
      else if p = ''gs://bucket/vertex-ai-registered-sklearn-model-2023-10-01-12-00-00-abc12/rewrapper''
      then Inr (Rewrapper_obj (Some 1))
      else Inl (OtherError ''NotFound''))"

definition two_candidates :: vertex_model where
  "two_candidates =
     \<lparr>resource_name = ''projects/1/locations/us-central1/models/79'',
      uri = ''gs://bucket/tuned'',
      image_uri = [],
      labels = [(''base'', ''text-bison-001''), (''fallback'', ''chat-bison-001'')]\<rparr>"

definition garden_fails_env :: pretrained_env where
  "garden_fails_env =
     (sample_penv (one_model two_candidates) no_store no_jobs)
       \<lparr>PublisherModel := (\<lambda>n. Inr (Publisher_model 1)),
        model_garden_from_pretrained :=
          (\<lambda>n pm tuned. if n = ''publishers/google/models/text-bison@001''
                         then Inl (OtherError ''RuntimeError'')
                         else Inr (Garden_model 2))\<rparr>"

section \<open>Properties\<close>

subsection \<open>Strings and the wrapper\<close>

lemma startswith_prefix: "startswith s p = prefix p s"
  by (induction s p rule: startswith.induct) auto

lemma str_contains_sublist: "str_contains s p = sublist p s"
proof (induction s)
  case Nil
  then show ?case by simp
next
  case (Cons x s)
  then show ?case by (cases p) (auto simp: startswith_prefix sublist_Cons_right)
qed

lemma rewrap_after_unwrap: "call_rewrapper (fst (unwrapper m)) (snd (unwrapper m)) = m"
  by (cases "wrapper m") (simp_all add: unwrapper_def call_rewrapper_def)

lemma unwrapper_fields:
  "py_module (snd (unwrapper m)) = py_module m"
  "has_tracking_metadata (snd (unwrapper m)) = has_tracking_metadata m"
  "has_state_dict (snd (unwrapper m)) = has_state_dict m"
  "payload (snd (unwrapper m)) = payload m"
  by (simp_all add: unwrapper_def)

subsection \<open>register without a staging bucket\<close>

text \<open>
  C8. When no staging bucket is configured (\<open>None\<close> or the empty string), \<open>register\<close>
  raises the configuration error and does nothing else: the log of calls is empty (no
  unwrap, no serialization, no upload) and the model object is the one passed in.
\<close>

theorem C8_missing_staging_bucket:
  "register env None m g = (Inl ConfigurationError, m, []) \<and>
   register env (Some []) m g = (Inl ConfigurationError, m, [])"
  by (simp add: register_def)

subsection \<open>register: dispatch, the unwrap/rewrap pair, the serving container\<close>

text \<open>
  With a staging bucket, \<open>register\<close> unwraps and constructs the serializer. When the
  constructor raises, the call ends there, with the model unwrapped. Otherwise it runs the
  routine of the detected framework and rewraps; the model object is then left as it was
  passed in.
\<close>

lemma register_dispatch:
  "sb \<noteq> [] \<Longrightarrow>
   register env (Some sb) m g =
     (case AnySerializer env of
        Some e \<Rightarrow> (Inl e, snd (unwrapper m), [Unwrap])
      | None \<Rightarrow>
          (case detected_framework m of
             None \<Rightarrow> (Inl UnsupportedFrameworkError_upload, m, [Unwrap, Rewrap])
           | Some f \<Rightarrow>
               (case register_as f env (snd (unwrapper m)) sb (fst (unwrapper m)) g of
                  (res, evs) \<Rightarrow> (res, m, Unwrap # evs @ [Rewrap]))))"
  using rewrap_after_unwrap[of m] unwrapper_fields[of m]
  by (cases "unwrapper m")
     (simp add: register_def detected_framework_def register_as_def
        startswith_prefix str_contains_sublist split: prod.splits option.splits)

lemma register_dispatch_ok:
  "sb \<noteq> [] \<Longrightarrow> AnySerializer env = None \<Longrightarrow>
   register env (Some sb) m g =
     (case detected_framework m of
        None \<Rightarrow> (Inl UnsupportedFrameworkError_upload, m, [Unwrap, Rewrap])
      | Some f \<Rightarrow>
          (case register_as f env (snd (unwrapper m)) sb (fst (unwrapper m)) g of
             (res, evs) \<Rightarrow> (res, m, Unwrap # evs @ [Rewrap])))"
  by (simp add: register_dispatch)

lemma register_success_serializer:
  "sb \<noteq> [] \<Longrightarrow> register env (Some sb) m g = (Inr vm, m', evs) \<Longrightarrow> AnySerializer env = None"
  by (cases "AnySerializer env") (simp_all add: register_dispatch)

lemmas register_defs =
  register_as_def register_sklearn_model_def register_tf_model_def register_pytorch_model_def
  do_serialize_def do_container_uri_def do_upload_def call_def bind_def Let_def

lemmas run_defs =
  register_def unwrapper_def call_rewrapper_def register_defs sample_model_def sample_env_def
  sample_env_upload_fails_def sample_env_no_serializer_def sample_upload_def
  sample_container_uri_def path_join_def ends_with_sep_def registered_labels_def
  SKLEARN_FILE_NAME_def TF_DIR_NAME_def PYTORCH_FILE_NAME_def REWRAPPER_NAME_def

lemma register_as_log:
  assumes "register_as f env m sb rw g = (res, evs)"
  shows "evs \<noteq> [] \<and> Unwrap \<notin> set evs \<and> Rewrap \<notin> set evs
         \<and> (\<forall>ev \<in> set (butlast evs). raised_at env ev = None)
         \<and> (case res of
               Inl e \<Rightarrow> raised_at env (last evs) = Some e
             | Inr vm \<Rightarrow> (\<exists>req. last evs = Upload req \<and> Model_upload env req = Inr vm))"
  using assms
  by (cases f)
     (auto simp: register_defs raised_at_def split: option.splits sum.splits)

text \<open>A routine serializes nothing but the model and the rewrapper it is given.\<close>

lemma register_as_objects:
  assumes "register_as f env m sb rw g = (res, evs)" and "Serialize ob p fmt \<in> set evs"
  shows "ob = Model_obj m \<or> ob = Rewrapper_obj rw"
  using assms
  by (cases f)
     (auto simp: register_defs split: option.splits sum.splits)




text \<open>
  Once the serializer is constructed, the unwrap and the rewrap are a pair. The log is one
  unwrap, then the calls of the framework routine, then one rewrap, whatever the
  collaborators do. What is serialized in between is the model without its wrapper and the
  rewrapper holding the wrapper taken off, and the model object is left with its wrapper.
  Every call before the last of the routine succeeded. When \<open>register\<close> raises, the
  exception is the unsupported-framework error (no call was made in between) or,
  unmodified, the exception the last call of the routine raised; when it returns, it
  returns what the upload returned.
\<close>

lemma unwrap_rewrap_pair:
  assumes "sb \<noteq> []" and "AnySerializer env = None"
    and "register env (Some sb) m g = (res, m', evs)"
  shows "\<exists>mid. evs = Unwrap # mid @ [Rewrap] \<and> Unwrap \<notin> set mid \<and> Rewrap \<notin> set mid
           \<and> m' = m
           \<and> (\<forall>ob p fmt. Serialize ob p fmt \<in> set mid \<longrightarrow>
                 ob = Model_obj (m\<lparr>wrapper := None\<rparr>) \<or> ob = Rewrapper_obj (wrapper m))
           \<and> (\<forall>ev \<in> set (butlast mid). raised_at env ev = None)
           \<and> (case res of
                 Inl e \<Rightarrow> (mid = [] \<and> e = UnsupportedFrameworkError_upload)
                          \<or> (mid \<noteq> [] \<and> raised_at env (last mid) = Some e)
               | Inr vm \<Rightarrow> mid \<noteq> [] \<and> (\<exists>req. last mid = Upload req \<and> Model_upload env req = Inr vm))"
proof (cases "detected_framework m")
  case None
  with assms register_dispatch_ok[of sb env m g]
  have "res = Inl UnsupportedFrameworkError_upload" "m' = m" "evs = Unwrap # [] @ [Rewrap]"
    by simp_all
  then show ?thesis by (intro exI[of _ "[]"]) simp
next
  case (Some f)
  obtain r mid where inner: "register_as f env (snd (unwrapper m)) sb (fst (unwrapper m)) g = (r, mid)"
    by (cases "register_as f env (snd (unwrapper m)) sb (fst (unwrapper m)) g")
  with Some assms register_dispatch_ok[of sb env m g]
  have eqs: "res = r" "m' = m" "evs = Unwrap # mid @ [Rewrap]"
    by simp_all
  have objs: "\<forall>ob p fmt. Serialize ob p fmt \<in> set mid \<longrightarrow>
                 ob = Model_obj (m\<lparr>wrapper := None\<rparr>) \<or> ob = Rewrapper_obj (wrapper m)"
    using register_as_objects[OF inner] by (simp add: unwrapper_def)
  from register_as_log[OF inner] eqs objs show ?thesis
    by (intro exI[of _ mid]) (auto split: sum.splits)
qed

text \<open>
  C2 fails where the constructor of the serializer raises. \<open>register\<close> detaches the wrapper,
  then constructs the serializer, and only then enters the \<open>try\<close> whose \<open>finally\<close> rewraps.
  With a staging bucket configured and a constructor that raises, the call ends with the
  constructor's exception after the unwrap alone: nothing is serialized, the rewrapper is
  never called, and the model is left without the wrapper it came with.
\<close>

theorem C2_constructor_failure_skips_rewrap:
  "register sample_env_no_serializer (Some ''gs://bucket'')
     (sample_model ''sklearn.svm'' False False) False =
     (Inl (OtherError ''ImportError''),
      (sample_model ''sklearn.svm'' False False)\<lparr>wrapper := None\<rparr>,
      [Unwrap]) \<and>
   wrapper (sample_model ''sklearn.svm'' False False) = Some 1"
  by (simp add: run_defs)

lemma register_as_success:
  assumes "register_as f env m sb rw g = (Inr vm, evs)"
  shows "\<exists>img req.
           filter is_get_container_uri evs = [container_call f g]
         \<and> container_answer env (container_call f g) = Some img
         \<and> filter is_upload evs = [Upload req]
         \<and> serving_container_image_uri req = img
         \<and> Model_upload env req = Inr vm
         \<and> display_name req = registered_name f env
         \<and> artifact_uri req = uploaded_uri f env sb
         \<and> upload_labels req = registered_labels
         \<and> sync req"
  using assms
  by (cases f; cases g)
     (auto simp: register_defs container_answer_def container_call_def is_get_container_uri_def
        is_upload_def registered_name_def framework_tag_def staging_dir_def uploaded_uri_def
        split: option.splits sum.splits)


text \<open>
  C7 (as amended). A successful \<open>register\<close> makes one call to the container helper, for the
  detected framework with its pinned version: sklearn 1.0, tensorflow 2.11, pytorch 1.12.
  For tensorflow and pytorch the accelerator passed is \<open>gpu\<close> when \<open>use_gpu\<close> is true and
  \<open>cpu\<close> otherwise; for sklearn no accelerator is passed, whatever \<open>use_gpu\<close> is. The
  image the helper answers is the one uploaded, under the name
  \<open>vertex-ai-registered-{framework}-model-{unique name}\<close>, with the artifact URI the staging
  directory of that name (for tensorflow its \<open>saved_model\<close> directory).
\<close>

theorem C7_serving_container:
  assumes "sb \<noteq> []" and "register env (Some sb) m g = (Inr vm, m', evs)"
  shows "\<exists>f img req.
           detected_framework m = Some f
         \<and> filter is_get_container_uri evs = [container_call f g]
         \<and> container_answer env (container_call f g) = Some img
         \<and> filter is_upload evs = [Upload req]
         \<and> serving_container_image_uri req = img
         \<and> Model_upload env req = Inr vm
         \<and> display_name req = registered_name f env
         \<and> artifact_uri req = uploaded_uri f env sb"
proof (cases "detected_framework m")
  case None
  with assms register_dispatch_ok[OF assms(1) register_success_serializer[OF assms], of m g]
  show ?thesis by simp
next
  case (Some f)
  obtain r mid where inner: "register_as f env (snd (unwrapper m)) sb (fst (unwrapper m)) g = (r, mid)"
    by (cases "register_as f env (snd (unwrapper m)) sb (fst (unwrapper m)) g")
  with Some assms register_dispatch_ok[OF assms(1) register_success_serializer[OF assms], of m g]
  have eqs: "r = Inr vm" "evs = Unwrap # mid @ [Rewrap]"
    by simp_all
  from register_as_success[OF inner[unfolded eqs(1)]] obtain img req where
    "filter is_get_container_uri mid = [container_call f g]"
    "container_answer env (container_call f g) = Some img"
    "filter is_upload mid = [Upload req]"
    "serving_container_image_uri req = img"
    "Model_upload env req = Inr vm"
    "display_name req = registered_name f env"
    "artifact_uri req = uploaded_uri f env sb"
    by blast
  with Some eqs show ?thesis
    by (simp add: is_get_container_uri_def is_upload_def)
qed

text \<open>
  The specification's example: an sklearn model, \<open>use_gpu=False\<close>, staging bucket
  \<open>gs://bucket\<close>.
\<close>

theorem C7_serving_container_witness:
  "''gs://bucket'' \<noteq> [] \<and>
   (\<exists>req. filter is_get_container_uri
            (snd (snd (register sample_env (Some ''gs://bucket'')
                         (sample_model ''sklearn.svm'' False False) False))) =
            [Get_container_uri ''sklearn'' ''1.0'' None]
       \<and> filter is_upload
            (snd (snd (register sample_env (Some ''gs://bucket'')
                         (sample_model ''sklearn.svm'' False False) False))) = [Upload req]
       \<and> artifact_uri req =
            ''gs://bucket/vertex-ai-registered-sklearn-model-2023-10-01-12-00-00-abc12'')"
proof -
  let ?m = "sample_model ''sklearn.svm'' False False"
  let ?r = "register sample_env (Some ''gs://bucket'') ?m False"
  have ne: "''gs://bucket'' \<noteq> []" by simp
  have eq: "?r = (Inr (sample_upload
                   \<lparr>display_name = ''vertex-ai-registered-sklearn-model-2023-10-01-12-00-00-abc12'',
                    artifact_uri = ''gs://bucket/vertex-ai-registered-sklearn-model-2023-10-01-12-00-00-abc12'',
                    serving_container_image_uri = ''us-docker.pkg.dev/vertex-ai/prediction/sklearn-cpu.1-0:latest'',
                    upload_labels = registered_labels, sync = True\<rparr>), fst (snd ?r), snd (snd ?r))"
    by (simp add: run_defs)
  have f: "detected_framework ?m = Some Sklearn"
    by (simp add: detected_framework_def sample_model_def)
  from C7_serving_container [OF ne eq] f show ?thesis
    by (auto simp: container_call_def uploaded_uri_def staging_dir_def registered_name_def
          framework_tag_def path_join_def ends_with_sep_def sample_env_def)
qed

text \<open>
  The claim's accelerator rule fails for sklearn: with \<open>use_gpu=True\<close> the registration
  succeeds and the one call to the container helper passes no accelerator, where the claim
  has \<open>gpu\<close>.
\<close>

theorem C7_sklearn_accelerator_counterexample:
  "detected_framework (sample_model ''sklearn.svm'' False False) = Some Sklearn \<and>
   fst (register sample_env (Some ''gs://bucket'') (sample_model ''sklearn.svm'' False False) True) =
     Inr \<lparr>resource_name = ''projects/1/locations/us-central1/models/42'',
          uri = ''gs://bucket/vertex-ai-registered-sklearn-model-2023-10-01-12-00-00-abc12'',
          image_uri = ''us-docker.pkg.dev/vertex-ai/prediction/sklearn-cpu.1-0:latest'',
          labels = [(''registered_by_vertex_ai'', ''true'')]\<rparr> \<and>
   filter is_get_container_uri
     (snd (snd (register sample_env (Some ''gs://bucket'')
                  (sample_model ''sklearn.svm'' False False) True))) =
     [Get_container_uri ''sklearn'' ''1.0'' None] \<and>
   claimed_container_call Sklearn True = Get_container_uri ''sklearn'' ''1.0'' (Some ''gpu'')"
  by (simp add: detected_framework_def run_defs is_get_container_uri_def claimed_container_call_def)

subsection \<open>from\_pretrained: the argument check\<close>

lemma fold_count_non_null:
  "fold (\<lambda>(_, argval) passed_args. if argval \<noteq> None then passed_args + 1 else passed_args) xs (k::nat)
     = k + non_null (map snd xs)"
  by (induction xs arbitrary: k) (auto simp: non_null_def)

lemma check_exactly_one:
  "check_from_pretrained_passed_exactly_one_arg xs =
     (if non_null (map snd xs) \<noteq> 1 then Some (ArgumentError (map fst xs)) else None)"
  unfolding check_from_pretrained_passed_exactly_one_arg_def fold_count_non_null
  by simp

text \<open>
  C4. Called with no argument or with two or three arguments that are not \<open>None\<close>,
  \<open>from_pretrained\<close> raises the argument error, naming the three arguments, before any
  collaborator is called; it reaches a retrieval path only when exactly one argument is
  not \<open>None\<close>.
\<close>

theorem C4_exactly_one_selector:
  "(non_null [a, b, c] \<noteq> 1 \<longrightarrow>
      from_pretrained env a b c =
        Some (Inl (ArgumentError [''model_name'', ''custom_job_name'', ''foundation_model_name'']), []))
   \<and> (reached_path (from_pretrained env a b c) \<longrightarrow> non_null [a, b, c] = 1)"
proof (cases "non_null [a, b, c] = 1")
  case True
  then show ?thesis by simp
next
  case False
  then have "from_pretrained env a b c =
        Some (Inl (ArgumentError [''model_name'', ''custom_job_name'', ''foundation_model_name'']), [])"
    by (simp add: from_pretrained_def check_exactly_one)
  with False show ?thesis by (simp add: reached_path_def)
qed

text \<open>The message of the argument error, as the f-string prints it.\<close>

lemma ArgumentError_message:
  "ArgumentError [''model_name'', ''custom_job_name'', ''foundation_model_name''] =
   ValueError (''Exactly one of ['model_name', 'custom_job_name', 'foundation_model_name'] '' @
               ''must be provided to from_pretrained.'')"
  by (simp add: ArgumentError_def py_repr_list_def)

text \<open>Two names given: refused. One name given: the registry is asked for the model.\<close>

theorem C4_exactly_one_selector_witness:
  "non_null [Some ''123'', Some ''456'', None] \<noteq> 1 \<and>
   from_pretrained (sample_penv no_models no_store no_jobs) (Some ''123'') (Some ''456'') None =
     Some (Inl (ValueError (''Exactly one of ['model_name', 'custom_job_name', 'foundation_model_name'] '' @
                            ''must be provided to from_pretrained.'')), []) \<and>
   reached_path (from_pretrained (sample_penv no_models no_store no_jobs) (Some ''123'') None None) \<and>
   non_null [Some ''123'', None, None] = 1"
  using C4_exactly_one_selector [of "Some ''123''" "Some ''456''" None "sample_penv no_models no_store no_jobs"]
        C4_exactly_one_selector [of "Some ''123''" None None "sample_penv no_models no_store no_jobs"]
  by (simp add: non_null_def ArgumentError_message reached_path_def from_pretrained_def
        check_exactly_one truthy_def str_of_def from_model_name_def bind_def call_def
        sample_penv_def no_models_def)

subsection \<open>from\_pretrained: the foundation-model path\<close>

text \<open>
  For a name that is not empty, the foundation-model path is as specified: the name is
  resolved as given when it has a \<open>/\<close> and under \<open>publishers/google/models/\<close>
  otherwise; every failure of the resolution is the one error; on success the handle is
  built from the publisher model.
\<close>

lemma foundation_path:
  assumes "name \<noteq> []"
  shows "from_pretrained env None None (Some name) =
     Some (let resource = (if sublist ''/'' name then name else ''publishers/google/models/'' @ name)
           in case PublisherModel env resource of
                Inl _ \<Rightarrow> (Inl InvalidModelGardenReferenceError, [Get_publisher_model resource])
              | Inr pm \<Rightarrow>
                  (case model_garden_from_pretrained env name pm None of
                     Inl e \<Rightarrow> Inl e
                   | Inr g \<Rightarrow> Inr (Garden g),
                   [Get_publisher_model resource, Garden_from_pretrained name]))"
  using assms
  by (simp add: from_pretrained_def check_exactly_one non_null_def truthy_def str_of_def
        from_foundation_model_name_def get_publisher_model_resource_def bind_def call_def Let_def
        str_contains_sublist split: sum.splits)

text \<open>
  C9 fails for the empty name. \<open>from_pretrained(foundation_model_name="")\<close> passes the
  argument check, which counts the arguments that are not \<open>None\<close>; the three blocks test
  truthiness, so none of them runs: nothing is resolved, no error is raised and the call
  returns \<open>None\<close>, where the claim has the name resolved under
  \<open>publishers/google/models/\<close> and the failure reported.
\<close>

theorem C9_empty_foundation_model_name:
  "from_pretrained env None None (Some []) = Some (Inr Py_None, [])"
  by (simp add: from_pretrained_def check_exactly_one non_null_def truthy_def)

subsection \<open>from\_pretrained: the training-job path\<close>

text \<open>
  The wait returns exactly when some read shows a state that is not pending: after the
  first such read.
\<close>

lemma poll_returns:
  assumes "n \<le> k" and "\<forall>i. n \<le> i \<and> i < k \<longrightarrow> job_states job i \<in> set pending"
    and "job_states job k \<notin> set pending"
  shows "get_remote_logs_until_complete pending job n = Some (Suc k)"
  using assms
proof (induction "k - n" arbitrary: n)
  case 0
  then have "n = k" by simp
  with 0 show ?case by (subst get_remote_logs_until_complete.simps) simp
next
  case (Suc d)
  then have lt: "n < k" by simp
  with Suc.prems have pend: "job_states job n \<in> set pending" by simp
  have "get_remote_logs_until_complete pending job (Suc n) = Some (Suc k)"
    using Suc.hyps Suc.prems lt by (intro Suc.hyps(1)) auto
  with pend show ?case by (subst get_remote_logs_until_complete.simps) simp
qed

lemma poll_blocks:
  assumes "get_remote_logs_until_complete pending job n = Some r"
  shows "\<exists>k. n \<le> k \<and> r = Suc k \<and> job_states job k \<notin> set pending"
proof (rule get_remote_logs_until_complete.raw_induct
         [where P = "\<lambda>pending job n r. \<exists>k. n \<le> k \<and> r = Suc k \<and> job_states job k \<notin> set pending",
          OF _ assms])
  fix f :: "job_state list \<Rightarrow> custom_job \<Rightarrow> nat \<Rightarrow> nat option"
  fix pending job n r
  assume IH: "\<And>pending job n r. f pending job n = Some r \<Longrightarrow>
                 \<exists>k. n \<le> k \<and> r = Suc k \<and> job_states job k \<notin> set pending"
    and step: "(if job_states job n \<in> set pending then f pending job (Suc n) else Some (Suc n)) = Some r"
  show "\<exists>k. n \<le> k \<and> r = Suc k \<and> job_states job k \<notin> set pending"
  proof (cases "job_states job n \<in> set pending")
    case True
    with step have "f pending job (Suc n) = Some r" by simp
    from IH[OF this] obtain k where "Suc n \<le> k" "r = Suc k" "job_states job k \<notin> set pending"
      by blast
    then show ?thesis by (intro exI[of _ k]) simp
  next
    case False
    with step show ?thesis by (intro exI[of _ n]) simp
  qed
qed

lemma verify_custom_job_iff:
  "verify_custom_job job =
     (if map_of (job_labels job) ''trained_by_vertex_ai'' = Some ''true'' then None
      else Some UnverifiedJobError)"
  by (auto simp: verify_custom_job_def truthy_def split: option.splits)

lemma get_model_from_job:
  "get_model_from_successful_custom_job env (output_uri_prefix job) =
     (load_job_output env job,
      Deserialize (path_join (path_join (output_uri_prefix job) ''output'') ''output_estimator'') #
      (case deserialize env (path_join (path_join (output_uri_prefix job) ''output'') ''output_estimator'') of
         Inl _ \<Rightarrow> []
       | Inr _ \<Rightarrow> [Deserialize (path_join (path_join (output_uri_prefix job) ''output'') ''rewrapper'')]))"
  by (simp add: get_model_from_successful_custom_job_def load_job_output_def
        generate_remote_job_output_path_def do_deserialize_def bind_def call_def
        OUTPUT_DIR_def OUTPUT_ESTIMATOR_DIR_def REWRAPPER_NAME_def
      split: sum.splits)


lemma job_path:
  assumes "name \<noteq> []"
  shows "from_pretrained env None (Some name) None = from_custom_job env name"
  using assms
  by (simp add: from_pretrained_def check_exactly_one non_null_def truthy_def str_of_def)

lemma job_outcome_log:
  "\<exists>evs. (case get_model_from_successful_custom_job env (output_uri_prefix job) of
            (r, evs') \<Rightarrow> (r, Get_job name # pre @ evs')) =
         (load_job_output env job, Get_job name # pre @ evs) \<and> list_all is_deserialize evs"
  by (simp add: get_model_from_job is_deserialize_def split: sum.splits)

text \<open>
  C6. For a job fetched by \<open>from_pretrained(custom_job_name=...)\<close>: a job without the label
  \<open>trained_by_vertex_ai\<close> of value \<open>true\<close> is refused as unverified, with no wait and
  whatever its state does (also when it would stay pending for ever). A verified job whose
  state is not pending is not waited for. A verified job in a pending state is waited for:
  when a later read shows a state that is not pending the wait ends, and when none does
  the call never returns. In both cases the state then read decides: for
  \<open>JOB_STATE_SUCCEEDED\<close> the estimator and the rewrapper are deserialized from the job's
  output directory, the rewrapper is applied and the model returned; for any other state
  the job-not-succeeded error is raised.
\<close>

theorem C6_training_job_path:
  assumes "name \<noteq> []" and "CustomJob_get env name = Inr job"
  shows
   "(map_of (job_labels job) ''trained_by_vertex_ai'' \<noteq> Some ''true'' \<longrightarrow>
       from_pretrained env None (Some name) None = Some (Inl UnverifiedJobError, [Get_job name]))
    \<and> (map_of (job_labels job) ''trained_by_vertex_ai'' = Some ''true'' \<longrightarrow>
        (job_states job 0 \<notin> set (JOB_PENDING_STATES env) \<longrightarrow>
           (\<exists>evs. from_pretrained env None (Some name) None =
                    Some (if job_states job 0 = JOB_STATE_SUCCEEDED then load_job_output env job
                          else Inl JobNotSucceededError,
                          Get_job name # evs)
                 \<and> list_all is_deserialize evs))
      \<and> (job_states job 0 \<in> set (JOB_PENDING_STATES env) \<longrightarrow>
           (\<forall>k. 1 \<le> k
                \<and> (\<forall>i. 1 \<le> i \<and> i < k \<longrightarrow> job_states job i \<in> set (JOB_PENDING_STATES env))
                \<and> job_states job k \<notin> set (JOB_PENDING_STATES env) \<longrightarrow>
              (\<exists>evs. from_pretrained env None (Some name) None =
                       Some (if job_states job (Suc k) = JOB_STATE_SUCCEEDED then load_job_output env job
                             else Inl JobNotSucceededError,
                             Get_job name # Poll_job (job_name job) # evs)
                    \<and> list_all is_deserialize evs))
         \<and> ((\<forall>i. job_states job i \<in> set (JOB_PENDING_STATES env)) \<longrightarrow>
               from_pretrained env None (Some name) None = None)))"
proof (intro conjI impI allI)
  assume "map_of (job_labels job) ''trained_by_vertex_ai'' \<noteq> Some ''true''"
  with assms show "from_pretrained env None (Some name) None = Some (Inl UnverifiedJobError, [Get_job name])"
    by (simp add: job_path from_custom_job_def verify_custom_job_iff)
next
  assume lbl: "map_of (job_labels job) ''trained_by_vertex_ai'' = Some ''true''"
    and st: "job_states job 0 \<notin> set (JOB_PENDING_STATES env)"
  from job_outcome_log[where env = env and job = job and name = name and pre = "[]"] obtain evs where
    "(case get_model_from_successful_custom_job env (output_uri_prefix job) of
            (r, evs') \<Rightarrow> (r, Get_job name # [] @ evs')) =
         (load_job_output env job, Get_job name # [] @ evs)" "list_all is_deserialize evs"
    by blast
  with assms lbl st show "\<exists>evs. from_pretrained env None (Some name) None =
                    Some (if job_states job 0 = JOB_STATE_SUCCEEDED then load_job_output env job
                          else Inl JobNotSucceededError,
                          Get_job name # evs)
                 \<and> list_all is_deserialize evs"
    by (cases "job_states job 0 = JOB_STATE_SUCCEEDED")
       (auto simp: job_path from_custom_job_def verify_custom_job_iff Let_def)
next
  fix k
  assume lbl: "map_of (job_labels job) ''trained_by_vertex_ai'' = Some ''true''"
    and st: "job_states job 0 \<in> set (JOB_PENDING_STATES env)"
    and k: "1 \<le> k \<and> (\<forall>i. 1 \<le> i \<and> i < k \<longrightarrow> job_states job i \<in> set (JOB_PENDING_STATES env))
                \<and> job_states job k \<notin> set (JOB_PENDING_STATES env)"
  then have poll: "get_remote_logs_until_complete (JOB_PENDING_STATES env) job 1 = Some (Suc k)"
    by (intro poll_returns) auto
  from job_outcome_log[where env = env and job = job and name = name and pre = "[Poll_job (job_name job)]"] obtain evs where
    "(case get_model_from_successful_custom_job env (output_uri_prefix job) of
            (r, evs') \<Rightarrow> (r, Get_job name # [Poll_job (job_name job)] @ evs')) =
         (load_job_output env job, Get_job name # [Poll_job (job_name job)] @ evs)"
    "list_all is_deserialize evs"
    by blast
  with assms lbl st poll show "\<exists>evs. from_pretrained env None (Some name) None =
                       Some (if job_states job (Suc k) = JOB_STATE_SUCCEEDED then load_job_output env job
                             else Inl JobNotSucceededError,
                             Get_job name # Poll_job (job_name job) # evs)
                    \<and> list_all is_deserialize evs"
    by (cases "job_states job (Suc k) = JOB_STATE_SUCCEEDED")
       (auto simp: job_path from_custom_job_def verify_custom_job_iff Let_def)
next
  assume lbl: "map_of (job_labels job) ''trained_by_vertex_ai'' = Some ''true''"
    and st: "job_states job 0 \<in> set (JOB_PENDING_STATES env)"
    and all: "\<forall>i. job_states job i \<in> set (JOB_PENDING_STATES env)"
  have "get_remote_logs_until_complete (JOB_PENDING_STATES env) job 1 = None"
  proof (cases "get_remote_logs_until_complete (JOB_PENDING_STATES env) job 1")
    case None
    then show ?thesis .
  next
    case (Some r)
    from poll_blocks[OF this] all show ?thesis by blast
  qed
  with assms lbl st show "from_pretrained env None (Some name) None = None"
    by (simp add: job_path from_custom_job_def verify_custom_job_iff Let_def)
qed


text \<open>
  A job that runs for two reads and then has succeeded yields its estimator, rewrapped; the
  same job labelled \<open>false\<close> is refused at once.
\<close>

theorem C6_training_job_path_witness:
  "job_states (sample_job (running_then JOB_STATE_SUCCEEDED) [(''trained_by_vertex_ai'', ''true'')]) 1
     = JOB_STATE_RUNNING \<and>
   job_states (sample_job (running_then JOB_STATE_SUCCEEDED) [(''trained_by_vertex_ai'', ''true'')]) 2
     = JOB_STATE_SUCCEEDED \<and>
   (\<exists>evs. from_pretrained
            (sample_penv no_models sample_job_store
               (one_job (sample_job (running_then JOB_STATE_SUCCEEDED) [(''trained_by_vertex_ai'', ''true'')])))
            None (Some ''projects/1/locations/us-central1/customJobs/7'') None =
          Some (Inr (Loaded (Model_obj (sample_model ''sklearn.svm'' False False))),
                Get_job ''projects/1/locations/us-central1/customJobs/7'' #
                Poll_job ''projects/1/locations/us-central1/customJobs/7'' # evs)
        \<and> list_all is_deserialize evs) \<and>
   from_pretrained
     (sample_penv no_models sample_job_store
        (one_job (sample_job (running_then JOB_STATE_SUCCEEDED) [(''trained_by_vertex_ai'', ''false'')])))
     None (Some ''projects/1/locations/us-central1/customJobs/7'') None =
     Some (Inl UnverifiedJobError, [Get_job ''projects/1/locations/us-central1/customJobs/7''])"
proof -
  let ?n = "''projects/1/locations/us-central1/customJobs/7''"
  let ?job = "sample_job (running_then JOB_STATE_SUCCEEDED) [(''trained_by_vertex_ai'', ''true'')]"
  let ?bad = "sample_job (running_then JOB_STATE_SUCCEEDED) [(''trained_by_vertex_ai'', ''false'')]"
  let ?env = "sample_penv no_models sample_job_store (one_job ?job)"
  let ?env' = "sample_penv no_models sample_job_store (one_job ?bad)"
  have ne: "?n \<noteq> []" by simp
  have get: "CustomJob_get ?env ?n = Inr ?job" "CustomJob_get ?env' ?n = Inr ?bad"
    by (simp_all add: sample_penv_def one_job_def sample_job_def)
  have lbl: "map_of (job_labels ?job) ''trained_by_vertex_ai'' = Some ''true''"
            "map_of (job_labels ?bad) ''trained_by_vertex_ai'' \<noteq> Some ''true''"
    by (simp_all add: sample_job_def)
  have st: "job_states ?job 0 \<in> set (JOB_PENDING_STATES ?env)"
           "job_states ?job 1 = JOB_STATE_RUNNING"
           "job_states ?job 2 = JOB_STATE_SUCCEEDED"
           "job_states ?job (Suc 2) = JOB_STATE_SUCCEEDED"
    by (simp_all add: sample_job_def running_then_def sample_penv_def)
  have run: "1 \<le> (2::nat) \<and> (\<forall>i. 1 \<le> i \<and> i < 2 \<longrightarrow> job_states ?job i \<in> set (JOB_PENDING_STATES ?env))
             \<and> job_states ?job 2 \<notin> set (JOB_PENDING_STATES ?env)"
    by (auto simp: sample_job_def running_then_def sample_penv_def)
  have load: "load_job_output ?env ?job = Inr (Loaded (Model_obj (sample_model ''sklearn.svm'' False False)))"
    by (simp add: load_job_output_def sample_job_def sample_penv_def sample_job_store_def
          path_join_def ends_with_sep_def apply_rewrapper_def call_rewrapper_def sample_model_def)
  from C6_training_job_path [OF ne get(1)] lbl(1) st(1) run
  have "\<exists>evs. from_pretrained ?env None (Some ?n) None =
                 Some (if job_states ?job (Suc 2) = JOB_STATE_SUCCEEDED then load_job_output ?env ?job
                       else Inl JobNotSucceededError,
                       Get_job ?n # Poll_job (job_name ?job) # evs)
               \<and> list_all is_deserialize evs"
    by blast
  then have a: "\<exists>evs. from_pretrained ?env None (Some ?n) None =
                 Some (Inr (Loaded (Model_obj (sample_model ''sklearn.svm'' False False))),
                       Get_job ?n # Poll_job ?n # evs)
               \<and> list_all is_deserialize evs"
    unfolding load st(4) by (simp add: sample_job_def)
  from C6_training_job_path [OF ne get(2)] lbl(2)
  have b: "from_pretrained ?env' None (Some ?n) None = Some (Inl UnverifiedJobError, [Get_job ?n])"
    by blast
  from a b st(2,3) show ?thesis by blast
qed

subsection \<open>from\_pretrained: the registered-model path\<close>

text \<open>
  The matcher accepts the language of the regular expression: a run of lowercase letters, a
  dash, a run of lowercase letters, a dash, three digits, and at most a final newline.
\<close>

lemma run_then_stop:
  assumes "\<forall>x \<in> set a. P x" and "\<not> P c"
  shows "takeWhile P (a @ c # r) = a" and "dropWhile P (a @ c # r) = c # r"
  using assms by (simp_all add: takeWhile_append2 dropWhile_append2)

lemma not_lower_dash: "\<not> is_lower CHR ''-''"
  by (simp add: is_lower_def)

lemma re_match_language:
  "re_match_publisher_model_label s \<longleftrightarrow>
     (\<exists>a b d nl. s = a @ ''-'' @ b @ ''-'' @ d @ nl
        \<and> a \<noteq> [] \<and> list_all is_lower a \<and> b \<noteq> [] \<and> list_all is_lower b
        \<and> length d = 3 \<and> list_all is_digit d \<and> (nl = [] \<or> nl = [CHR 0x0A]))"
  (is "?L \<longleftrightarrow> ?R")
proof
  assume ?R
  then obtain a b d nl where s: "s = a @ CHR ''-'' # b @ CHR ''-'' # d @ nl"
    and a: "a \<noteq> []" "\<forall>x \<in> set a. is_lower x" and b: "b \<noteq> []" "\<forall>x \<in> set b. is_lower x"
    and d: "length d = 3" "list_all is_digit d" and nl: "nl = [] \<or> nl = [CHR 0x0A]"
    by (auto simp: list_all_iff)
  from a b d nl show ?L
    unfolding re_match_publisher_model_label_def s
    by (auto simp: run_then_stop[OF a(2) not_lower_dash] run_then_stop[OF b(2) not_lower_dash])
next
  assume L: ?L
  let ?a = "takeWhile is_lower s"
  from L obtain c r where r: "dropWhile is_lower s = c # r"
    by (auto simp: re_match_publisher_model_label_def split: list.splits)
  let ?b = "takeWhile is_lower r"
  from L r obtain c' t where t: "dropWhile is_lower r = c' # t"
    by (auto simp: re_match_publisher_model_label_def split: list.splits)
  from L r t have facts: "?a \<noteq> []" "c = CHR ''-''" "?b \<noteq> []" "c' = CHR ''-''"
    "list_all is_digit (take 3 t)" "3 \<le> length t" "drop 3 t = [] \<or> drop 3 t = [CHR 0x0A]"
    by (auto simp: re_match_publisher_model_label_def)
  have "s = ?a @ dropWhile is_lower s" by simp
  also have "\<dots> = ?a @ ''-'' @ r" using r facts by simp
  also have "r = ?b @ dropWhile is_lower r" by simp
  also have "\<dots> = ?b @ ''-'' @ t" using t facts by simp
  also have "t = take 3 t @ drop 3 t" by simp
  finally have "s = ?a @ ''-'' @ ?b @ ''-'' @ take 3 t @ drop 3 t" .
  moreover have "list_all is_lower ?a" "list_all is_lower ?b"
    by (auto simp: list_all_iff dest: set_takeWhileD)
  moreover from facts have "length (take 3 t) = 3" by simp
  ultimately show ?R using facts by blast
qed

lemma get_file_claimed:
  "get_model_file_from_image_uri u =
     (case claimed_model_file u of None \<Rightarrow> Inl UnsupportedFrameworkError_load | Some file \<Rightarrow> Inr file)"
  by (simp add: get_model_file_from_image_uri_def claimed_model_file_def str_contains_sublist
        SKLEARN_FILE_NAME_def PYTORCH_FILE_NAME_def)

lemma model_path:
  assumes "name \<noteq> []" and "get_Model env name = Inr vm"
  shows "from_pretrained env (Some name) None None =
     Some (case (if map_of (labels vm) ''registered_by_vertex_ai'' = Some ''true'' then
                   (case get_model_file_from_image_uri (image_uri vm) of
                      Inl e \<Rightarrow> (Inl e, [])
                    | Inr file \<Rightarrow>
                        bind (do_deserialize env (path_join (uri vm) file)) (\<lambda>model.
                        bind (do_deserialize env (path_join (uri vm) REWRAPPER_NAME)) (\<lambda>rewrapper.
                        case apply_rewrapper rewrapper model of
                          Inl e \<Rightarrow> (Inl e, [])
                        | Inr model \<Rightarrow> (Inr (Loaded model), []))))
                 else if labels vm = [] then (Inl (NotRegisteredError name), [])
                 else scan_labels env name vm (map fst (labels vm))) of
             (r, evs) \<Rightarrow> (r, Get_model name # evs))"
  using assms
  by (simp add: from_pretrained_def check_exactly_one non_null_def truthy_def str_of_def
        from_model_name_def bind_def call_def)

lemma registered_branch:
  "fst (case get_model_file_from_image_uri (image_uri vm) of
          Inl e \<Rightarrow> (Inl e, [])
        | Inr file \<Rightarrow>
            bind (do_deserialize env (path_join (uri vm) file)) (\<lambda>model.
            bind (do_deserialize env (path_join (uri vm) REWRAPPER_NAME)) (\<lambda>rewrapper.
            case apply_rewrapper rewrapper model of
              Inl e \<Rightarrow> (Inl e, [])
            | Inr model \<Rightarrow> (Inr (Loaded model), [])))) = load_registered env vm"
  by (simp add: get_file_claimed load_registered_def bind_def call_def do_deserialize_def
        REWRAPPER_NAME_def split: option.splits sum.splits)

text \<open>The registered branch calls nothing but the serializer.\<close>

lemma registered_branch_log:
  "list_all is_deserialize
     (snd (case get_model_file_from_image_uri (image_uri vm) of
             Inl e \<Rightarrow> (Inl e, [])
           | Inr file \<Rightarrow>
               bind (do_deserialize env (path_join (uri vm) file)) (\<lambda>model.
               bind (do_deserialize env (path_join (uri vm) REWRAPPER_NAME)) (\<lambda>rewrapper.
               case apply_rewrapper rewrapper model of
                 Inl e \<Rightarrow> (Inl e, [])
               | Inr model \<Rightarrow> (Inr (Loaded model), [])))))"
  by (simp add: bind_def call_def do_deserialize_def is_deserialize_def split: sum.splits)

text \<open>The label loop computes the scan over the label values; it deserializes nothing.\<close>

lemma attempt_try_label:
  "fst (bind (get_publisher_model_resource env (get_model_id_from_tuning_model_id env v)) (\<lambda>publisher_model.
          call (Garden_from_pretrained (get_model_id_from_tuning_model_id env v))
            (case model_garden_from_pretrained env (get_model_id_from_tuning_model_id env v) publisher_model
                    (Some vm) of
               Inl e \<Rightarrow> Inl e
             | Inr g \<Rightarrow> Inr (Garden g)))) = try_label env vm v"
  by (simp add: try_label_def get_publisher_model_resource_def bind_def call_def Let_def
        str_contains_sublist InvalidModelGardenReferenceError_def split: sum.splits)

lemma attempt_log:
  "list_all (\<lambda>ev. \<not> is_deserialize ev)
     (snd (bind (get_publisher_model_resource env i) (\<lambda>publisher_model.
          call (Garden_from_pretrained i)
            (case model_garden_from_pretrained env i publisher_model (Some vm) of
               Inl e \<Rightarrow> Inl e
             | Inr g \<Rightarrow> Inr (Garden g)))))"
  by (simp add: get_publisher_model_resource_def bind_def call_def Let_def is_deserialize_def
        split: sum.splits)

lemma scan_labels_first_handle:
  assumes "set keys \<subseteq> fst ` set (labels vm)"
  shows "fst (scan_labels env name vm keys) =
           first_handle env name vm (map (\<lambda>k. str_of (map_of (labels vm) k)) keys)"
  using assms
proof (induction keys)
  case Nil
  then show ?case by simp
next
  case (Cons k keys)
  then obtain v where v: "map_of (labels vm) k = Some v"
    by (auto simp: map_of_eq_None_iff[symmetric] image_iff) (metis fst_conv not_Some_eq weak_map_of_SomeI map_of_eq_None_iff image_eqI)
  from Cons have IH: "fst (scan_labels env name vm keys) =
           first_handle env name vm (map (\<lambda>k. str_of (map_of (labels vm) k)) keys)"
    by simp
  show ?case
  proof (cases "re_match_publisher_model_label v")
    case False
    with v IH show ?thesis by (simp add: str_of_def)
  next
    case True
    let ?att = "bind (get_publisher_model_resource env (get_model_id_from_tuning_model_id env v)) (\<lambda>publisher_model.
          call (Garden_from_pretrained (get_model_id_from_tuning_model_id env v))
            (case model_garden_from_pretrained env (get_model_id_from_tuning_model_id env v) publisher_model
                    (Some vm) of
               Inl e \<Rightarrow> Inl e
             | Inr g \<Rightarrow> Inr (Garden g)))"
    have att: "fst ?att = try_label env vm v" by (rule attempt_try_label)
    obtain r evs where re: "?att = (r, evs)" by (cases ?att)
    with att have r: "try_label env vm v = r" by simp
    obtain r' evs' where rest: "scan_labels env name vm keys = (r', evs')"
      by (cases "scan_labels env name vm keys")
    with IH have r': "first_handle env name vm (map (\<lambda>k. str_of (map_of (labels vm) k)) keys) = r'"
      by simp
    from v True re r rest r' show ?thesis
      by (simp add: str_of_def Let_def split: sum.splits error.splits)
  qed
qed


lemma scan_labels_log:
  "list_all (\<lambda>ev. \<not> is_deserialize ev) (snd (scan_labels env name vm keys))"
proof (induction keys)
  case Nil
  then show ?case by simp
next
  case (Cons k keys)
  show ?case
  proof (cases "map_of (labels vm) k")
    case None
    then show ?thesis by simp
  next
    case (Some v)
    let ?att = "bind (get_publisher_model_resource env (get_model_id_from_tuning_model_id env v)) (\<lambda>publisher_model.
          call (Garden_from_pretrained (get_model_id_from_tuning_model_id env v))
            (case model_garden_from_pretrained env (get_model_id_from_tuning_model_id env v) publisher_model
                    (Some vm) of
               Inl e \<Rightarrow> Inl e
             | Inr g \<Rightarrow> Inr (Garden g)))"
    obtain r evs where re: "?att = (r, evs)" by (cases ?att)
    with attempt_log[of env "get_model_id_from_tuning_model_id env v" vm]
    have "list_all (\<lambda>ev. \<not> is_deserialize ev) evs" by simp
    with Some Cons re show ?thesis
      by (cases "scan_labels env name vm keys")
         (simp add: Let_def split: sum.splits error.splits)
  qed
qed

lemma first_handle_no_match:
  "list_all (\<lambda>v. \<not> re_match_publisher_model_label v) vs \<Longrightarrow>
   first_handle env name vm vs = Inl (NotFromModelGardenError name)"
  by (induction vs) simp_all

lemma first_handle_not_NotRegistered:
  "first_handle env name vm vs \<noteq> Inl (NotRegisteredError name)"
proof (induction vs)
  case Nil
  show ?case by (simp add: NotFromModelGardenError_def NotRegisteredError_def)
next
  case (Cons v vs)
  then show ?case by (simp add: NotRegisteredError_def split: sum.splits error.splits)
qed

lemma label_values_dict:
  "distinct (map fst (labels vm)) \<Longrightarrow> label_values vm = map snd (labels vm)"
  by (auto simp: label_values_def str_of_def)

lemma model_path_result:
  assumes "name \<noteq> []" and "get_Model env name = Inr vm"
  shows "\<exists>evs. from_pretrained env (Some name) None None =
           Some (if map_of (labels vm) ''registered_by_vertex_ai'' = Some ''true'' then load_registered env vm
                 else if labels vm = [] then Inl (NotRegisteredError name)
                 else first_handle env name vm (label_values vm),
                 Get_model name # evs)
         \<and> (map_of (labels vm) ''registered_by_vertex_ai'' = Some ''true'' \<longrightarrow>
              list_all is_deserialize evs)
         \<and> (map_of (labels vm) ''registered_by_vertex_ai'' \<noteq> Some ''true'' \<longrightarrow>
              list_all (\<lambda>ev. \<not> is_deserialize ev) evs)"
proof -
  have keys: "set (map fst (labels vm)) \<subseteq> fst ` set (labels vm)" by simp
  note scan = scan_labels_first_handle[OF keys, of env name, folded label_values_def]
  show ?thesis
  proof (cases "map_of (labels vm) ''registered_by_vertex_ai'' = Some ''true''")
    case True
    with registered_branch[where vm = vm and env = env]
         registered_branch_log[where vm = vm and env = env] show ?thesis
      unfolding model_path[OF assms] by (auto split: prod.splits)
  next
    case False
    with scan scan_labels_log[of env name vm "map fst (labels vm)"] show ?thesis
      unfolding model_path[OF assms] by (cases "labels vm = []") (auto split: prod.splits)
  qed
qed


text \<open>
  C5 (as amended). For a model resource fetched by \<open>from_pretrained(model_name=...)\<close>: with
  the label \<open>registered_by_vertex_ai\<close> of value \<open>true\<close>, the model-file name is derived
  from the image URI (\<open>tf\<close>: the whole directory; \<open>sklearn\<close>: \<open>model.pkl\<close>; \<open>pytorch\<close>:
  \<open>model.mar\<close>; any other URI is an unsupported framework), the model and the rewrapper
  are deserialized from the artifact URI, the rewrapper is applied and the model returned;
  nothing but the serializer is called. Without any label the not-registered error is
  raised. Otherwise nothing is deserialized and the label values are scanned for the
  pattern: lowercase letters, a dash, lowercase letters, a dash, three digits, and at most a
  final newline. A matching value is tried as a publisher-model resolution and tuned-model
  construction, and the first handle obtained is returned. An attempt that fails with a
  \<open>ValueError\<close>, as every failed resolution does, moves on to the next value; an exception
  of another class from the construction ends the scan and leaves the function as it is.
  When the values are used up the not-from-Model-Garden error is raised.
\<close>

theorem C5_registered_model_dispatch:
  assumes "name \<noteq> []" and "get_Model env name = Inr vm"
  shows "(\<exists>evs. from_pretrained env (Some name) None None =
            Some (if map_of (labels vm) ''registered_by_vertex_ai'' = Some ''true''
                  then load_registered env vm
                  else if labels vm = [] then Inl (NotRegisteredError name)
                  else first_handle env name vm (label_values vm),
                  Get_model name # evs)
          \<and> (map_of (labels vm) ''registered_by_vertex_ai'' = Some ''true'' \<longrightarrow>
                list_all is_deserialize evs)
          \<and> (map_of (labels vm) ''registered_by_vertex_ai'' \<noteq> Some ''true'' \<longrightarrow>
                list_all (\<lambda>ev. \<not> is_deserialize ev) evs))
       \<and> (\<forall>s. re_match_publisher_model_label s =
              (\<exists>a b d nl. s = a @ ''-'' @ b @ ''-'' @ d @ nl
                 \<and> a \<noteq> [] \<and> list_all is_lower a \<and> b \<noteq> [] \<and> list_all is_lower b
                 \<and> length d = 3 \<and> list_all is_digit d \<and> (nl = [] \<or> nl = [CHR 0x0A])))"
  using model_path_result[OF assms] re_match_language by blast

text \<open>
  A registered sklearn model is loaded and rewrapped; a tuned model of the catalogue is
  returned as a Model Garden model; the same resource without labels is refused as not
  registered.
\<close>

lemmas retrieval_defs =
  sample_penv_def one_model_def tuned_model_def unregistered_model_def label_values_def str_of_def
  re_match_publisher_model_label_def is_lower_def is_digit_def try_label_def sample_model_id_def
  str_contains_sublist [symmetric] Let_def

theorem C5_registered_model_dispatch_witness:
  "(\<exists>evs. from_pretrained (sample_penv (one_model sklearn_registered) sklearn_store no_jobs)
            (Some ''projects/1/locations/us-central1/models/80'') None None =
          Some (Inr (Loaded (Model_obj (sample_model ''sklearn.svm'' False False))),
                Get_model ''projects/1/locations/us-central1/models/80'' # evs)
        \<and> list_all is_deserialize evs)
   \<and> (\<exists>evs. from_pretrained (sample_penv (one_model tuned_model) no_store no_jobs)
            (Some ''projects/1/locations/us-central1/models/77'') None None =
          Some (Inr (Garden (Garden_model 1)),
                Get_model ''projects/1/locations/us-central1/models/77'' # evs))
   \<and> (\<exists>evs. from_pretrained (sample_penv (one_model (tuned_model\<lparr>labels := []\<rparr>)) no_store no_jobs)
            (Some ''projects/1/locations/us-central1/models/77'') None None =
          Some (Inl (NotRegisteredError ''projects/1/locations/us-central1/models/77''),
                Get_model ''projects/1/locations/us-central1/models/77'' # evs))"
proof -
  let ?n = "''projects/1/locations/us-central1/models/77''"
  let ?k = "''projects/1/locations/us-central1/models/80''"
  let ?env = "sample_penv (one_model sklearn_registered) sklearn_store no_jobs"
  have ne: "?n \<noteq> []" "?k \<noteq> []" by simp_all
  have g0: "get_Model ?env ?k = Inr sklearn_registered"
    by (simp add: retrieval_defs sklearn_registered_def)
  have g1: "get_Model (sample_penv (one_model tuned_model) no_store no_jobs) ?n = Inr tuned_model"
    by (simp add: retrieval_defs)
  have g2: "get_Model (sample_penv (one_model (tuned_model\<lparr>labels := []\<rparr>)) no_store no_jobs) ?n
              = Inr (tuned_model\<lparr>labels := []\<rparr>)"
    by (simp add: retrieval_defs)
  have reg: "map_of (labels sklearn_registered) ''registered_by_vertex_ai'' = Some ''true''"
    by (simp add: sklearn_registered_def)
  have load: "load_registered ?env sklearn_registered =
                Inr (Loaded (Model_obj (sample_model ''sklearn.svm'' False False)))"
    by (simp add: load_registered_def claimed_model_file_def sklearn_registered_def sample_penv_def
          sklearn_store_def path_join_def ends_with_sep_def apply_rewrapper_def call_rewrapper_def
          sample_model_def str_contains_sublist [symmetric])
  from C5_registered_model_dispatch [OF ne(2) g0] reg load
  have a: "\<exists>evs. from_pretrained ?env (Some ?k) None None =
          Some (Inr (Loaded (Model_obj (sample_model ''sklearn.svm'' False False))), Get_model ?k # evs)
        \<and> list_all is_deserialize evs"
    by auto
  from C5_registered_model_dispatch [OF ne(1) g1] C5_registered_model_dispatch [OF ne(1) g2]
  have b: "(\<exists>evs. from_pretrained (sample_penv (one_model tuned_model) no_store no_jobs)
            (Some ?n) None None = Some (Inr (Garden (Garden_model 1)), Get_model ?n # evs))
   \<and> (\<exists>evs. from_pretrained (sample_penv (one_model (tuned_model\<lparr>labels := []\<rparr>)) no_store no_jobs)
            (Some ?n) None None = Some (Inl (NotRegisteredError ?n), Get_model ?n # evs))"
    by (simp add: retrieval_defs) blast
  from a b show ?thesis by (intro conjI) blast+
qed

text \<open>
  The claim's scan fails where building the tuned model raises an exception that is no
  \<open>ValueError\<close>. The first label matches and its publisher model resolves, the construction
  raises, and the call ends with that exception: the scan does not move on to the second
  label, which would have yielded a handle, and the error is not the
  not-from-Model-Garden error.
\<close>

theorem C5_scan_stops_counterexample:
  "from_pretrained garden_fails_env (Some ''projects/1/locations/us-central1/models/79'') None None =
     Some (Inl (OtherError ''RuntimeError''),
           [Get_model ''projects/1/locations/us-central1/models/79'',
            Get_publisher_model ''publishers/google/models/text-bison@001'',
            Garden_from_pretrained ''publishers/google/models/text-bison@001'']) \<and>
   re_match_publisher_model_label ''chat-bison-001'' \<and>
   try_label garden_fails_env two_candidates ''chat-bison-001'' = Inr (Garden (Garden_model 2))"
  by (simp add: garden_fails_env_def two_candidates_def retrieval_defs no_store_def
        from_pretrained_def check_exactly_one non_null_def truthy_def from_model_name_def
        get_publisher_model_resource_def bind_def call_def)

text \<open>
  C10. A fetched model whose label \<open>registered_by_vertex_ai\<close> is present with a value other
  than the exact string \<open>true\<close> does not take the registered branch (nothing is
  deserialized) and is not refused as not registered: its label values are scanned for the
  tuned-model-id pattern, and when none matches the not-from-Model-Garden error is raised.
\<close>

theorem C10_stale_registration_label:
  assumes "name \<noteq> []" and "get_Model env name = Inr vm"
    and "map_of (labels vm) ''registered_by_vertex_ai'' = Some v" and "v \<noteq> ''true''"
  shows "\<exists>r evs. from_pretrained env (Some name) None None = Some (r, Get_model name # evs)
           \<and> r = first_handle env name vm (label_values vm)
           \<and> r \<noteq> Inl (NotRegisteredError name)
           \<and> list_all (\<lambda>ev. \<not> is_deserialize ev) evs
           \<and> (list_all (\<lambda>v. \<not> re_match_publisher_model_label v) (label_values vm) \<longrightarrow>
                r = Inl (NotFromModelGardenError name))"
proof -
  from assms(3) have ne: "labels vm \<noteq> []" by auto
  from assms(3,4) have nt: "map_of (labels vm) ''registered_by_vertex_ai'' \<noteq> Some ''true''" by simp
  from model_path_result[OF assms(1,2)] ne nt obtain evs where
    "from_pretrained env (Some name) None None =
       Some (first_handle env name vm (label_values vm), Get_model name # evs)"
    "list_all (\<lambda>ev. \<not> is_deserialize ev) evs"
    by auto
  then show ?thesis
    using first_handle_not_NotRegistered[of env name vm "label_values vm"]
          first_handle_no_match[of "label_values vm" env name vm]
    by blast
qed

text \<open>The value \<open>True\<close>, with a capital, is such a label.\<close>

theorem C10_stale_registration_label_witness:
  "map_of (labels (unregistered_model ''True'')) ''registered_by_vertex_ai'' = Some ''True'' \<and>
   ''True'' \<noteq> ''true'' \<and>
   (\<exists>evs. from_pretrained (sample_penv (one_model (unregistered_model ''True'')) no_store no_jobs)
            (Some ''projects/1/locations/us-central1/models/78'') None None =
          Some (Inl (NotFromModelGardenError ''projects/1/locations/us-central1/models/78''),
                Get_model ''projects/1/locations/us-central1/models/78'' # evs)
        \<and> list_all (\<lambda>ev. \<not> is_deserialize ev) evs)"
proof -
  let ?n = "''projects/1/locations/us-central1/models/78''"
  let ?vm = "unregistered_model ''True''"
  let ?env = "sample_penv (one_model ?vm) no_store no_jobs"
  have ne: "?n \<noteq> []" by simp
  have g: "get_Model ?env ?n = Inr ?vm" by (simp add: retrieval_defs)
  have l: "map_of (labels ?vm) ''registered_by_vertex_ai'' = Some ''True''" by (simp add: retrieval_defs)
  have d: "''True'' \<noteq> ''true''" by simp
  have nm: "list_all (\<lambda>v. \<not> re_match_publisher_model_label v) (label_values ?vm)"
    by (simp add: retrieval_defs)
  from C10_stale_registration_label [OF ne g l d] nm obtain evs where
    "from_pretrained ?env (Some ?n) None None = Some (Inl (NotFromModelGardenError ?n), Get_model ?n # evs)"
    "list_all (\<lambda>ev. \<not> is_deserialize ev) evs"
    by metis
  with l d show ?thesis by (intro conjI exI[of _ evs])
qed

subsection \<open>register followed by from\_pretrained\<close>

text \<open>
  What a successful routine serialized, and how the paths read relate to the paths written:
  the rewrapper is read where it was written; the model is read where it was written for
  sklearn and pytorch, and at the written \<open>saved_model\<close> path followed by a separator for
  tensorflow, since joining the artifact URI with the empty file name appends one.
\<close>

lemma register_as_serialized:
  assumes "register_as f env m sb rw g = (Inr vm, evs)"
  shows "filter is_serialize evs =
           [Serialize (Rewrapper_obj rw) (written_rewrapper_path f env sb) None,
            Serialize (Model_obj m) (written_model_path f env sb) (save_format f)]"
  using assms
  by (cases f)
     (auto simp: register_defs is_serialize_def written_rewrapper_path_def written_model_path_def
        save_format_def staging_dir_def registered_name_def framework_tag_def
        SKLEARN_FILE_NAME_def TF_DIR_NAME_def PYTORCH_FILE_NAME_def REWRAPPER_NAME_def
        split: option.splits sum.splits)

lemma read_rewrapper_written:
  "read_rewrapper_path f env sb = written_rewrapper_path f env sb"
  by (cases f)
     (auto simp: read_rewrapper_path_def written_rewrapper_path_def uploaded_uri_def
        TF_DIR_NAME_def path_join_def ends_with_sep_def)

lemma read_model_written:
  "read_model_path f env sb =
     (if f = Tensorflow then written_model_path f env sb @ ''/'' else written_model_path f env sb)"
  by (cases f)
     (auto simp: read_model_path_def written_model_path_def uploaded_uri_def model_file_of_def
        TF_DIR_NAME_def path_join_def ends_with_sep_def)

text \<open>The run of \<open>register\<close> on the keras model.\<close>

lemma keras_run_eval:
  "keras_run =
     (Inr keras_registered, keras_model,
      [Unwrap,
       Serialize (Rewrapper_obj (Some 1))
         ''gs://bucket/vertex-ai-registered-tensorflow-model-2023-10-01-12-00-00-abc12/saved_model/rewrapper'' None,
       Serialize (Model_obj (keras_model\<lparr>wrapper := None\<rparr>))
         ''gs://bucket/vertex-ai-registered-tensorflow-model-2023-10-01-12-00-00-abc12/saved_model'' (Some ''tf''),
       Get_container_uri ''tensorflow'' ''2.11'' (Some ''cpu''),
       Upload \<lparr>display_name = ''vertex-ai-registered-tensorflow-model-2023-10-01-12-00-00-abc12'',
               artifact_uri = ''gs://bucket/vertex-ai-registered-tensorflow-model-2023-10-01-12-00-00-abc12/saved_model'',
               serving_container_image_uri = ''us-docker.pkg.dev/vertex-ai/prediction/tf2-cpu.2-11:latest'',
               upload_labels = [(''registered_by_vertex_ai'', ''true'')],
               sync = True\<rparr>,
       Rewrap])"
  by (simp add: keras_run_def keras_model_def keras_registered_def run_defs)

text \<open>
  The claim's path equality fails for tensorflow. \<open>register\<close> succeeds on the keras model
  and writes the model at \<open>.../saved_model\<close>; over a store that reads back exactly what
  was written at a path, and a registry that returns the resource as uploaded,
  \<open>from_pretrained\<close> asks for \<open>.../saved_model/\<close>, a path that was not written, and the
  round trip does not return the model.
\<close>

theorem C1_saved_model_path_counterexample:
  "fst keras_run = Inr keras_registered \<and>
   deserialize exact_store_env
     ''gs://bucket/vertex-ai-registered-tensorflow-model-2023-10-01-12-00-00-abc12/saved_model'' =
     Inr (Model_obj (keras_model\<lparr>wrapper := None\<rparr>)) \<and>
   from_pretrained exact_store_env (Some (resource_name keras_registered)) None None =
     Some (Inl (OtherError ''NotFound''),
           [Get_model ''projects/1/locations/us-central1/models/42'',
            Deserialize
              ''gs://bucket/vertex-ai-registered-tensorflow-model-2023-10-01-12-00-00-abc12/saved_model/''])"
  by (simp add: keras_run_eval exact_store_env_def sample_penv_def one_model_def keras_registered_def
        from_pretrained_def check_exactly_one non_null_def truthy_def str_of_def
        from_model_name_def bind_def call_def do_deserialize_def get_model_file_from_image_uri_def
        path_join_def ends_with_sep_def)


text \<open>Applying the rewrapper that was taken off gives the model back.\<close>

lemma load_registered_round_trip:
  assumes "claimed_model_file (image_uri vm) = Some file"
    and "deserialize penv (path_join (uri vm) file) = Inr (Model_obj (snd (unwrapper m)))"
    and "deserialize penv (path_join (uri vm) ''rewrapper'') = Inr (Rewrapper_obj (fst (unwrapper m)))"
  shows "load_registered penv vm = Inr (Loaded (Model_obj m))"
  using assms rewrap_after_unwrap[of m]
  by (simp add: load_registered_def apply_rewrapper_def)

lemma registered_log:
  assumes "name \<noteq> []" and "get_Model penv name = Inr vm"
    and "map_of (labels vm) ''registered_by_vertex_ai'' = Some ''true''"
    and "claimed_model_file (image_uri vm) = Some file"
    and "deserialize penv (path_join (uri vm) file) = Inr ob"
    and "deserialize penv (path_join (uri vm) ''rewrapper'') = Inr rw"
  shows "snd (the (from_pretrained penv (Some name) None None)) =
           [Get_model name, Deserialize (path_join (uri vm) file),
            Deserialize (path_join (uri vm) ''rewrapper'')]"
  using assms
  by (simp add: model_path get_file_claimed bind_def call_def do_deserialize_def REWRAPPER_NAME_def
      split: sum.splits prod.splits)

text \<open>
  C1 (as amended). Let \<open>register\<close> succeed on a model, with a registry that stores the
  resource as uploaded and returns it under its name, an image URI that names the detected
  framework the way the retrieval reads it, and a serializer whose \<open>deserialize\<close> returns
  what was serialized at a path, for a tensorflow saved-model directory also when the path
  is given with a trailing separator. Then the model is of one of the three frameworks, the
  resource carries the label \<open>registered_by_vertex_ai\<close> of value \<open>true\<close>, and
  \<open>from_pretrained\<close> on the resource's name returns the original model, rewrapped, having
  read the rewrapper exactly where it was written and the model where it was written for
  sklearn (\<open>model.pkl\<close>) and pytorch (\<open>model.mar\<close>), and at the written
  \<open>saved_model\<close> path followed by \<open>/\<close> for tensorflow.
\<close>

theorem C1_round_trip:
  assumes "sb \<noteq> []"
    and "register env (Some sb) m g = (Inr vm, m', evs)"
    and "\<forall>req. Model_upload env req = Inr vm \<longrightarrow>
           uri vm = artifact_uri req \<and> image_uri vm = serving_container_image_uri req \<and>
           labels vm = upload_labels req"
    and "resource_name vm \<noteq> []"
    and "get_Model penv (resource_name vm) = Inr vm"
    and "\<forall>f. detected_framework m = Some f \<longrightarrow> claimed_model_file (image_uri vm) = Some (model_file_of f)"
    and "\<forall>ob p fmt. Serialize ob p fmt \<in> set evs \<longrightarrow>
           deserialize penv p = Inr ob \<and> (fmt = Some ''tf'' \<longrightarrow> deserialize penv (p @ ''/'') = Inr ob)"
  shows "\<exists>f. detected_framework m = Some f
          \<and> labels vm = [(''registered_by_vertex_ai'', ''true'')]
          \<and> filter is_serialize evs =
               [Serialize (Rewrapper_obj (wrapper m)) (written_rewrapper_path f env sb) None,
                Serialize (Model_obj (m\<lparr>wrapper := None\<rparr>)) (written_model_path f env sb) (save_format f)]
          \<and> from_pretrained penv (Some (resource_name vm)) None None =
               Some (Inr (Loaded (Model_obj m)),
                     [Get_model (resource_name vm),
                      Deserialize (read_model_path f env sb),
                      Deserialize (read_rewrapper_path f env sb)])
          \<and> read_rewrapper_path f env sb = written_rewrapper_path f env sb
          \<and> read_model_path f env sb =
               (if f = Tensorflow then written_model_path f env sb @ ''/''
                else written_model_path f env sb)
          \<and> m' = m"
proof (cases "detected_framework m")
  case None
  with assms(1,2) register_dispatch_ok[OF assms(1) register_success_serializer[OF assms(1,2)], of m g]
  show ?thesis by simp
next
  case (Some f)
  obtain r mid where inner:
    "register_as f env (snd (unwrapper m)) sb (fst (unwrapper m)) g = (r, mid)"
    by (cases "register_as f env (snd (unwrapper m)) sb (fst (unwrapper m)) g")
  with Some assms(1,2) register_dispatch_ok[OF assms(1) register_success_serializer[OF assms(1,2)], of m g]
  have eqs: "r = Inr vm" "m' = m" "evs = Unwrap # mid @ [Rewrap]"
    by simp_all
  note inner' = inner[unfolded eqs(1)]
  from register_as_success[OF inner'] obtain req where req:
    "Model_upload env req = Inr vm" "artifact_uri req = uploaded_uri f env sb"
    "upload_labels req = registered_labels"
    by blast
  with assms(3) have vm: "uri vm = uploaded_uri f env sb"
    "labels vm = [(''registered_by_vertex_ai'', ''true'')]"
    by (auto simp: registered_labels_def)
  have ser: "filter is_serialize evs =
               [Serialize (Rewrapper_obj (wrapper m)) (written_rewrapper_path f env sb) None,
                Serialize (Model_obj (m\<lparr>wrapper := None\<rparr>)) (written_model_path f env sb) (save_format f)]"
    using register_as_serialized[OF inner'] eqs(3)
    by (simp add: is_serialize_def unwrapper_def)
  then have mem: "Serialize (Rewrapper_obj (wrapper m)) (written_rewrapper_path f env sb) None \<in> set evs"
    "Serialize (Model_obj (m\<lparr>wrapper := None\<rparr>)) (written_model_path f env sb) (save_format f) \<in> set evs"
    using filter_is_subset[of is_serialize evs] by auto
  from mem(1) assms(7) have drw:
    "deserialize penv (written_rewrapper_path f env sb) = Inr (Rewrapper_obj (wrapper m))"
    by blast
  from mem(2) assms(7) have dm:
    "deserialize penv (written_model_path f env sb) = Inr (Model_obj (m\<lparr>wrapper := None\<rparr>))"
    "save_format f = Some ''tf'' \<longrightarrow>
       deserialize penv (written_model_path f env sb @ ''/'') = Inr (Model_obj (m\<lparr>wrapper := None\<rparr>))"
    by blast+
  have dread: "deserialize penv (read_model_path f env sb) = Inr (Model_obj (m\<lparr>wrapper := None\<rparr>))"
    using dm by (cases f) (simp_all add: read_model_written save_format_def)
  from Some assms(6) have mf: "claimed_model_file (image_uri vm) = Some (model_file_of f)" by simp
  have p1: "path_join (uri vm) (model_file_of f) = read_model_path f env sb"
    and p2: "path_join (uri vm) ''rewrapper'' = read_rewrapper_path f env sb"
    by (simp_all add: vm read_model_path_def read_rewrapper_path_def)
  have reg: "map_of (labels vm) ''registered_by_vertex_ai'' = Some ''true''"
    by (simp add: vm)
  have d1: "deserialize penv (path_join (uri vm) (model_file_of f)) = Inr (Model_obj (snd (unwrapper m)))"
    and d2: "deserialize penv (path_join (uri vm) ''rewrapper'') = Inr (Rewrapper_obj (fst (unwrapper m)))"
    using dread drw by (simp_all add: p1 p2 read_rewrapper_written unwrapper_def)
  have res: "load_registered penv vm = Inr (Loaded (Model_obj m))"
    by (rule load_registered_round_trip[OF mf d1 d2])
  from model_path_result[OF assms(4,5)] reg res obtain evs' where
    fp: "from_pretrained penv (Some (resource_name vm)) None None =
           Some (Inr (Loaded (Model_obj m)), Get_model (resource_name vm) # evs')"
    by auto
  from registered_log[OF assms(4,5) reg mf d1 d2] fp
  have "from_pretrained penv (Some (resource_name vm)) None None =
           Some (Inr (Loaded (Model_obj m)),
                 [Get_model (resource_name vm),
                  Deserialize (read_model_path f env sb),
                  Deserialize (read_rewrapper_path f env sb)])"
    by (simp add: p1 p2)
  with Some vm(2) ser eqs(2) read_rewrapper_written[of f env sb] read_model_written[of f env sb]
  show ?thesis by simp
qed


text \<open>
  The keras model round-trips over a store that takes a directory with or without the
  trailing separator.
\<close>

theorem C1_round_trip_witness:
  "''gs://bucket'' \<noteq> [] \<and>
   register sample_env (Some ''gs://bucket'') keras_model False =
     (Inr keras_registered, keras_model, snd (snd keras_run)) \<and>
   from_pretrained directory_store_env (Some ''projects/1/locations/us-central1/models/42'') None None =
     Some (Inr (Loaded (Model_obj keras_model)),
           [Get_model ''projects/1/locations/us-central1/models/42'',
            Deserialize
              ''gs://bucket/vertex-ai-registered-tensorflow-model-2023-10-01-12-00-00-abc12/saved_model/'',
            Deserialize
              ''gs://bucket/vertex-ai-registered-tensorflow-model-2023-10-01-12-00-00-abc12/saved_model/rewrapper''])"
proof -
  have ne: "''gs://bucket'' \<noteq> []" by simp
  have run: "register sample_env (Some ''gs://bucket'') keras_model False =
               (Inr keras_registered, keras_model, snd (snd keras_run))"
    using keras_run_eval by (simp add: keras_run_def)
  have faithful: "\<forall>req. Model_upload sample_env req = Inr keras_registered \<longrightarrow>
           uri keras_registered = artifact_uri req \<and>
           image_uri keras_registered = serving_container_image_uri req \<and>
           labels keras_registered = upload_labels req"
    by (auto simp: sample_env_def sample_upload_def keras_registered_def)
  have name: "resource_name keras_registered \<noteq> []"
    and nm: "resource_name keras_registered = ''projects/1/locations/us-central1/models/42''"
    by (simp_all add: keras_registered_def)
  have fetch: "get_Model directory_store_env (resource_name keras_registered) = Inr keras_registered"
    by (simp add: directory_store_env_def sample_penv_def one_model_def)
  have fw: "detected_framework keras_model = Some Tensorflow"
    by (simp add: detected_framework_def keras_model_def sample_model_def)
  have tagged: "\<forall>f. detected_framework keras_model = Some f \<longrightarrow>
                  claimed_model_file (image_uri keras_registered) = Some (model_file_of f)"
    by (simp add: fw claimed_model_file_def keras_registered_def model_file_of_def
          str_contains_sublist [symmetric])
  have inverse: "\<forall>ob p fmt. Serialize ob p fmt \<in> set (snd (snd keras_run)) \<longrightarrow>
           deserialize directory_store_env p = Inr ob \<and>
           (fmt = Some ''tf'' \<longrightarrow> deserialize directory_store_env (p @ ''/'') = Inr ob)"
    by (auto simp: keras_run_eval directory_store_env_def sample_penv_def strip_sep_def ends_with_sep_def)
  from C1_round_trip [OF ne run faithful name fetch tagged inverse] fw
  have "from_pretrained directory_store_env (Some (resource_name keras_registered)) None None =
          Some (Inr (Loaded (Model_obj keras_model)),
                [Get_model (resource_name keras_registered),
                 Deserialize (read_model_path Tensorflow sample_env ''gs://bucket''),
                 Deserialize (read_rewrapper_path Tensorflow sample_env ''gs://bucket'')])"
    by auto
  then have "from_pretrained directory_store_env (Some ''projects/1/locations/us-central1/models/42'') None None =
     Some (Inr (Loaded (Model_obj keras_model)),
           [Get_model ''projects/1/locations/us-central1/models/42'',
            Deserialize
              ''gs://bucket/vertex-ai-registered-tensorflow-model-2023-10-01-12-00-00-abc12/saved_model/'',
            Deserialize
              ''gs://bucket/vertex-ai-registered-tensorflow-model-2023-10-01-12-00-00-abc12/saved_model/rewrapper''])"
    by (simp add: nm read_model_path_def read_rewrapper_path_def uploaded_uri_def staging_dir_def
          registered_name_def framework_tag_def model_file_of_def TF_DIR_NAME_def path_join_def
          ends_with_sep_def sample_env_def)
  with ne run show ?thesis by (intro conjI)
qed

end
